theory Spec2Isabelle
  imports Main "HOL-Library.Word" "HOL-Library.Sublist" "HOL-Library.Multiset"
begin

unbundle bit_operations_syntax

section \<open>The rolling file writer of \<^verbatim>\<open>io/rollingfilewriter.go\<close>\<close>

text \<open>
  The writer is stateful code against a filesystem. The embedding passes two states
  explicitly: the writer record (the Go struct) and a \<open>world\<close> record for everything
  outside the program: the contents of the directory \<open>CurrentDirPath\<close>, the table of open
  file descriptors, the clock, and a plan of the failures the operating system will
  report. Every function of the source that touches the filesystem takes a world and
  returns the new one next to its result.
\<close>

subsection \<open>Errors\<close>

text \<open>
  Go's \<open>error\<close> values. \<open>ErrNotExist\<close> stands for every error that \<open>os.IsNotExist\<close>
  accepts, \<open>ErrInvalid\<close> is what the methods of a nil \<open>*os.File\<close> return, \<open>ErrClosed\<close>
  what the methods of a closed one return, \<open>ErrIO n\<close> is any other failure of a system
  call (by errno). \<open>Panic\<close> is not an error value of Go: it marks a run-time panic
  (a slice expression out of range).
\<close>

datatype error =
    ErrNotExist
  | ErrInvalid
  | ErrClosed
  | ErrIO nat
  | ErrSyntax
  | ErrRange
  | CannotOpenFileError string
  | Errorf string
  | ParseError string string
  | EOF
  | Panic

definition os_IsNotExist :: "error option \<Rightarrow> bool" where
  "os_IsNotExist err = (err = Some ErrNotExist)"

subsection \<open>Integers as text: \<open>strconv.Atoi\<close> and \<open>fmt.Sprintf("%d")\<close>\<close>

text \<open>Go's \<open>int\<close> is taken to be 64 bits wide; \<open>wrap_int\<close> is its wrap-around.\<close>

definition MaxInt :: int where
  "MaxInt = 2 ^ 63 - 1"

definition MinInt :: int where
  "MinInt = - (2 ^ 63)"

definition wrap_int :: "int \<Rightarrow> int" where
  "wrap_int x = (x + 2 ^ 63) mod 2 ^ 64 - 2 ^ 63"

definition is_digit :: "char \<Rightarrow> bool" where
  "is_digit c = (48 \<le> (of_char c :: nat) \<and> (of_char c :: nat) \<le> 57)"

definition digit_val :: "char \<Rightarrow> nat" where
  "digit_val c = of_char c - 48"

definition digits_val :: "string \<Rightarrow> nat" where
  "digits_val s = foldl (\<lambda>a c. 10 * a + digit_val c) 0 s"

text \<open>
  \<open>strconv.Atoi\<close>: an optional sign, then at least one decimal digit and nothing else;
  a value outside the range of \<open>int\<close> is clamped and reported as a range error.
\<close>

definition Atoi :: "string \<Rightarrow> int \<times> error option" where
  "Atoi s =
     (let neg = (s \<noteq> [] \<and> hd s = CHR ''-'');
          body = (if s \<noteq> [] \<and> (hd s = CHR ''-'' \<or> hd s = CHR ''+'') then tl s else s)
      in if body = [] \<or> \<not> list_all is_digit body then (0, Some ErrSyntax)
         else let v = int (digits_val body)
              in if \<not> neg \<and> v > MaxInt then (MaxInt, Some ErrRange)
                 else if neg \<and> - v < MinInt then (MinInt, Some ErrRange)
                 else (if neg then - v else v, None))"

function nat_digits :: "nat \<Rightarrow> string" where
  "nat_digits n =
     (if n < 10 then [char_of (48 + n)]
      else nat_digits (n div 10) @ [char_of (48 + n mod 10)])"
  by pat_completeness auto
termination
  by (relation "measure id") auto

declare nat_digits.simps [simp del]

text \<open>\<open>fmt.Sprintf("%d", v)\<close> for an \<open>int\<close> \<open>v\<close>.\<close>

definition Sprintf_d :: "int \<Rightarrow> string" where
  "Sprintf_d v = (if v < 0 then CHR ''-'' # nat_digits (nat (- v)) else nat_digits (nat v))"

subsection \<open>File modes\<close>

text \<open>The type bits of \<open>os.FileMode\<close> (a \<open>uint32\<close>).\<close>

definition ModeDir :: "32 word" where "ModeDir = push_bit 31 1"
definition ModeSymlink :: "32 word" where "ModeSymlink = push_bit 27 1"
definition ModeDevice :: "32 word" where "ModeDevice = push_bit 26 1"
definition ModeNamedPipe :: "32 word" where "ModeNamedPipe = push_bit 25 1"
definition ModeSocket :: "32 word" where "ModeSocket = push_bit 24 1"
definition ModeCharDevice :: "32 word" where "ModeCharDevice = push_bit 21 1"
definition ModeIrregular :: "32 word" where "ModeIrregular = push_bit 19 1"

definition ModeType :: "32 word" where
  "ModeType = ModeDir OR ModeSymlink OR ModeNamedPipe OR ModeSocket OR ModeDevice
                OR ModeCharDevice OR ModeIrregular"

definition isRegular :: "32 word \<Rightarrow> bool" where
  "isRegular m = (m AND ModeType = 0)"

definition is_dir_mode :: "32 word \<Rightarrow> bool" where
  "is_dir_mode m = (m AND ModeDir \<noteq> 0)"

subsection \<open>The world: one directory, open descriptors, clock and failures\<close>

text \<open>
  The world holds the directory \<open>CurrentDirPath\<close> of the writer: its entries, in the order
  a directory read returns them, each with its mode and contents. The writer addresses
  every file as \<open>filepath.Join(CurrentDirPath, name)\<close>; the model addresses the entry by
  \<open>name\<close>. An open descriptor designates its file by name: the writer closes its file
  before it renames it and never removes a file it has open.

  \<open>plan\<close> says which system calls fail: the call number \<open>steps\<close> fails with errno \<open>e\<close>
  when \<open>plan steps = Some (e, k)\<close> (\<open>k\<close> is the number of bytes a failing write still
  appends). Such a failure is never "file does not exist": that error is reported exactly
  when the entry is absent. \<open>clock\<close> is what \<open>time.Now()\<close> reads at each step, in
  nanoseconds. \<open>tformat\<close> and \<open>tparse\<close> are \<open>Time.Format\<close> and
  \<open>time.ParseInLocation\<close> in the local zone, \<open>is_abs\<close>, \<open>abs_path\<close> and \<open>join_path\<close>
  are \<open>filepath.IsAbs\<close>, \<open>filepath.Abs\<close> and \<open>filepath.Join\<close>; none of them is
  interpreted.
\<close>

record fentry =
  fmode :: "32 word"
  fdata :: string

record world =
  entries :: "(string \<times> fentry) list"
  fds :: "(nat \<times> string) list"
  next_fd :: nat
  plan :: "nat \<Rightarrow> (nat \<times> nat) option"
  clock :: "nat \<Rightarrow> int"
  steps :: nat
  tformat :: "int \<Rightarrow> string \<Rightarrow> string"
  tparse :: "string \<Rightarrow> string \<Rightarrow> int option"
  is_abs :: "string \<Rightarrow> bool"
  abs_path :: "string \<Rightarrow> string + string"
  join_path :: "string \<Rightarrow> string \<Rightarrow> string"

definition syscall :: "world \<Rightarrow> (nat \<times> nat) option \<times> world" where
  "syscall w = (plan w (steps w), w\<lparr>steps := Suc (steps w)\<rparr>)"

definition time_Now :: "world \<Rightarrow> int \<times> world" where
  "time_Now w = (clock w (steps w), w\<lparr>steps := Suc (steps w)\<rparr>)"

definition os_MkdirAll :: "world \<Rightarrow> error option \<times> world" where
  "os_MkdirAll w =
     (case syscall w of
        (Some (e, k), w') \<Rightarrow> (Some (ErrIO e), w')
      | (None, w') \<Rightarrow> (None, w'))"

definition os_Lstat :: "string \<Rightarrow> world \<Rightarrow> (error + fentry) \<times> world" where
  "os_Lstat name w =
     (case syscall w of
        (Some (e, k), w') \<Rightarrow> (Inl (ErrIO e), w')
      | (None, w') \<Rightarrow>
          (case map_of (entries w') name of
             None \<Rightarrow> (Inl ErrNotExist, w')
           | Some f \<Rightarrow> (Inr f, w')))"

definition stat_Size :: "fentry \<Rightarrow> 64 word" where
  "stat_Size f = of_nat (length (fdata f))"

definition new_fd :: "string \<Rightarrow> world \<Rightarrow> nat \<times> world" where
  "new_fd name w =
     (next_fd w, w\<lparr>fds := (next_fd w, name) # fds w, next_fd := Suc (next_fd w)\<rparr>)"

text \<open>\<open>os.OpenFile(path, O_WRONLY|O_APPEND, perm)\<close>: no file is created.\<close>

definition os_OpenFile_append :: "string \<Rightarrow> world \<Rightarrow> (error + nat) \<times> world" where
  "os_OpenFile_append name w =
     (case syscall w of
        (Some (e, k), w') \<Rightarrow> (Inl (ErrIO e), w')
      | (None, w') \<Rightarrow>
          (case map_of (entries w') name of
             None \<Rightarrow> (Inl ErrNotExist, w')
           | Some f \<Rightarrow>
               if is_dir_mode (fmode f) then (Inl (ErrIO 21), w')
               else (case new_fd name w' of (fd, w'') \<Rightarrow> (Inr fd, w''))))"

definition truncate_entry :: "string \<Rightarrow> (string \<times> fentry) list \<Rightarrow> (string \<times> fentry) list" where
  "truncate_entry name es = map (\<lambda>(n, f). if n = name then (n, f\<lparr>fdata := []\<rparr>) else (n, f)) es"

text \<open>\<open>os.Create(path)\<close>: creates a regular file, or truncates the one that exists.\<close>

definition os_Create :: "string \<Rightarrow> world \<Rightarrow> (error + nat) \<times> world" where
  "os_Create name w =
     (case syscall w of
        (Some (e, k), w') \<Rightarrow> (Inl (ErrIO e), w')
      | (None, w') \<Rightarrow>
          (case map_of (entries w') name of
             None \<Rightarrow>
               (case new_fd name (w'\<lparr>entries := entries w' @ [(name, \<lparr>fmode = 438, fdata = []\<rparr>)]\<rparr>) of
                  (fd, w'') \<Rightarrow> (Inr fd, w''))
           | Some f \<Rightarrow>
               if is_dir_mode (fmode f) then (Inl (ErrIO 21), w')
               else (case new_fd name (w'\<lparr>entries := truncate_entry name (entries w')\<rparr>) of
                       (fd, w'') \<Rightarrow> (Inr fd, w''))))"

definition rename_entry :: "string \<Rightarrow> string \<Rightarrow> (string \<times> fentry) list \<Rightarrow> (string \<times> fentry) list" where
  "rename_entry old new es =
     map (\<lambda>(n, f). if n = old then (new, f) else (n, f)) (filter (\<lambda>(n, f). n \<noteq> new) es)"

text \<open>
  \<open>os.Rename(old, new)\<close>: an existing target is replaced, unless one of the two is a
  directory and the other is not.
\<close>

definition os_Rename :: "string \<Rightarrow> string \<Rightarrow> world \<Rightarrow> error option \<times> world" where
  "os_Rename old new w =
     (case syscall w of
        (Some (e, k), w') \<Rightarrow> (Some (ErrIO e), w')
      | (None, w') \<Rightarrow>
          (case map_of (entries w') old of
             None \<Rightarrow> (Some ErrNotExist, w')
           | Some f \<Rightarrow>
               if old = new then (None, w')
               else (case map_of (entries w') new of
                       None \<Rightarrow> (None, w'\<lparr>entries := rename_entry old new (entries w')\<rparr>)
                     | Some g \<Rightarrow>
                         if is_dir_mode (fmode g) \<noteq> is_dir_mode (fmode f)
                         then (Some (ErrIO (if is_dir_mode (fmode g) then 21 else 20)), w')
                         else (None, w'\<lparr>entries := rename_entry old new (entries w')\<rparr>))))"

definition os_Remove :: "string \<Rightarrow> world \<Rightarrow> error option \<times> world" where
  "os_Remove name w =
     (case syscall w of
        (Some (e, k), w') \<Rightarrow> (Some (ErrIO e), w')
      | (None, w') \<Rightarrow>
          (case map_of (entries w') name of
             None \<Rightarrow> (Some ErrNotExist, w')
           | Some f \<Rightarrow> (None, w'\<lparr>entries := filter (\<lambda>(n, f). n \<noteq> name) (entries w')\<rparr>)))"

text \<open>
  The methods of \<open>*os.File\<close>. A nil file gives \<open>ErrInvalid\<close>, a closed one \<open>ErrClosed\<close>.
  A close that fails has released the descriptor all the same.
\<close>

definition File_Close :: "nat option \<Rightarrow> world \<Rightarrow> error option \<times> world" where
  "File_Close file w =
     (case file of
        None \<Rightarrow> (Some ErrInvalid, w)
      | Some fd \<Rightarrow>
          (case map_of (fds w) fd of
             None \<Rightarrow> (Some ErrClosed, w)
           | Some name \<Rightarrow>
               (case syscall w of
                  (Some (e, k), w') \<Rightarrow> (Some (ErrIO e), w'\<lparr>fds := filter (\<lambda>(d, n). d \<noteq> fd) (fds w')\<rparr>)
                | (None, w') \<Rightarrow> (None, w'\<lparr>fds := filter (\<lambda>(d, n). d \<noteq> fd) (fds w')\<rparr>))))"

definition append_entry :: "string \<Rightarrow> string \<Rightarrow> (string \<times> fentry) list \<Rightarrow> (string \<times> fentry) list" where
  "append_entry name bs es = map (\<lambda>(n, f). if n = name then (n, f\<lparr>fdata := fdata f @ bs\<rparr>) else (n, f)) es"

text \<open>
  \<open>File.Write\<close> returns the number of bytes appended and an error; the error is nil only
  when all the bytes were appended.
\<close>

definition File_Write :: "nat option \<Rightarrow> string \<Rightarrow> world \<Rightarrow> (nat \<times> error option) \<times> world" where
  "File_Write file bs w =
     (case file of
        None \<Rightarrow> ((0, Some ErrInvalid), w)
      | Some fd \<Rightarrow>
          (case map_of (fds w) fd of
             None \<Rightarrow> ((0, Some ErrClosed), w)
           | Some name \<Rightarrow>
               (case syscall w of
                  (Some (e, k), w') \<Rightarrow>
                    ((min k (length bs), Some (ErrIO e)),
                     w'\<lparr>entries := append_entry name (take k bs) (entries w')\<rparr>)
                | (None, w') \<Rightarrow>
                    ((length bs, None), w'\<lparr>entries := append_entry name bs (entries w')\<rparr>))))"

subsection \<open>Reading a directory\<close>

text \<open>
  \<open>os.Open\<close> on the directory gives the stream of its entries; \<open>Readdir(n)\<close> takes up
  to \<open>n\<close> of them and reports \<open>io.EOF\<close> once none is left. The deferred close of the
  directory handle returns nothing the code looks at and is left out.
\<close>

definition os_Open_dir :: "world \<Rightarrow> (error + (string \<times> fentry) list) \<times> world" where
  "os_Open_dir w =
     (case syscall w of
        (Some (e, k), w') \<Rightarrow> (Inl (ErrIO e), w')
      | (None, w') \<Rightarrow> (Inr (entries w'), w'))"

definition File_Readdir ::
  "nat \<Rightarrow> (string \<times> fentry) list \<Rightarrow> world
    \<Rightarrow> ((string \<times> fentry) list \<times> error option) \<times> (string \<times> fentry) list \<times> world" where
  "File_Readdir n rest w =
     (case syscall w of
        (Some (e, k), w') \<Rightarrow> (([], Some (ErrIO e)), rest, w')
      | (None, w') \<Rightarrow>
          if rest = [] then (([], Some EOF), rest, w')
          else ((take n rest, None), drop n rest, w'))"

text \<open>The inner loop of \<open>getDirFilePaths\<close> over one chunk of entries.\<close>

fun scan_chunk ::
  "world \<Rightarrow> string \<Rightarrow> (string \<Rightarrow> bool) option \<Rightarrow> bool \<Rightarrow> (string \<times> fentry) list
    \<Rightarrow> string list \<Rightarrow> string list" where
  "scan_chunk w absDirPath fpFilter pathIsName [] filePaths = filePaths"
| "scan_chunk w absDirPath fpFilter pathIsName (fi # fis) filePaths =
     (if isRegular (fmode (snd fi)) then
        (let fp = (if pathIsName then fst fi else join_path w absDirPath (fst fi))
         in if (case fpFilter of None \<Rightarrow> False | Some flt \<Rightarrow> \<not> flt fp)
            then scan_chunk w absDirPath fpFilter pathIsName fis filePaths
            else scan_chunk w absDirPath fpFilter pathIsName fis (filePaths @ [fp]))
      else scan_chunk w absDirPath fpFilter pathIsName fis filePaths)"

text \<open>The outer loop, reading chunks of \<open>rbs = 2 << 5\<close> entries.\<close>

definition rbs :: nat where
  "rbs = 2 * 2 ^ 5"

function readdir_loop ::
  "string \<Rightarrow> (string \<Rightarrow> bool) option \<Rightarrow> bool \<Rightarrow> (string \<times> fentry) list \<Rightarrow> string list
    \<Rightarrow> world \<Rightarrow> (error + string list) \<times> world" where
  "readdir_loop absDirPath fpFilter pathIsName rest filePaths w =
     (case File_Readdir rbs rest w of
        ((fis, Some e), rest', w') \<Rightarrow>
          if e = EOF then (Inr filePaths, w') else (Inl e, w')
      | ((fis, None), rest', w') \<Rightarrow>
          readdir_loop absDirPath fpFilter pathIsName rest'
            (scan_chunk w' absDirPath fpFilter pathIsName fis filePaths) w')"
  by pat_completeness auto
termination
  by (relation "measure (\<lambda>(a, f, p, rest, fps, w). length rest)")
     (auto simp: File_Readdir_def rbs_def split: prod.splits option.splits if_splits)

declare readdir_loop.simps [simp del]

definition getDirFilePaths ::
  "string \<Rightarrow> (string \<Rightarrow> bool) option \<Rightarrow> bool \<Rightarrow> world \<Rightarrow> (error + string list) \<times> world" where
  "getDirFilePaths dirPath fpFilter pathIsName w =
     (case os_Open_dir w of
        (Inl err, w1) \<Rightarrow>
          (Inl (CannotOpenFileError (''Cannot open file: '' @ ''Cannot open directory '' @ dirPath)), w1)
      | (Inr dfi, w1) \<Rightarrow>
          (case (if \<not> is_abs w1 dirPath then abs_path w1 dirPath else Inr dirPath) of
             Inl msg \<Rightarrow> (Inl (Errorf (''cannot get absolute path of directory: '' @ msg)), w1)
           | Inr absDirPath \<Rightarrow> readdir_loop absDirPath fpFilter pathIsName dfi [] w1))"

subsection \<open>Sorting and time\<close>

text \<open>
  \<open>sort.Sort\<close> with a \<open>Less\<close> function, as an insertion sort. Go's sort is not stable;
  the order of elements that \<open>Less\<close> does not separate is the model's choice.
\<close>

fun insert_less :: "('a \<Rightarrow> 'a \<Rightarrow> bool) \<Rightarrow> 'a \<Rightarrow> 'a list \<Rightarrow> 'a list" where
  "insert_less lt x [] = [x]"
| "insert_less lt x (y # ys) = (if lt y x then y # insert_less lt x ys else x # y # ys)"

definition sort_Sort :: "('a \<Rightarrow> 'a \<Rightarrow> bool) \<Rightarrow> 'a list \<Rightarrow> 'a list" where
  "sort_Sort lt xs = foldr (insert_less lt) xs []"

text \<open>
  Instants are nanoseconds since the Unix epoch; \<open>zeroTime\<close> is Go's \<open>Time{}\<close>, which a
  failed parse returns. A \<open>Duration\<close> is an \<open>int64\<close> of nanoseconds and \<open>Time.Sub\<close>
  saturates.
\<close>

definition zeroTime :: int where
  "zeroTime = - 62135596800 * 1000000000"

definition Hour :: int where
  "Hour = 3600 * 1000000000"

definition time_Sub :: "int \<Rightarrow> int \<Rightarrow> int" where
  "time_Sub t u = (if t - u > MaxInt then MaxInt else if t - u < MinInt then MinInt else t - u)"

definition time_ParseInLocation :: "world \<Rightarrow> string \<Rightarrow> string \<Rightarrow> int \<times> error option" where
  "time_ParseInLocation w layout val =
     (case tparse w layout val of
        None \<Rightarrow> (zeroTime, Some (ParseError layout val))
      | Some t \<Rightarrow> (t, None))"

subsection \<open>The writer\<close>

definition rollingLogHistoryDelimiter :: string where
  "rollingLogHistoryDelimiter = ''.''"

definition RollingTypeSize :: "8 word" where "RollingTypeSize = 0"
definition RollingTypeTime :: "8 word" where "RollingTypeTime = 1"

definition RollingIntervalAny :: "8 word" where "RollingIntervalAny = 0"
definition RollingIntervalDaily :: "8 word" where "RollingIntervalDaily = 1"

text \<open>
  The two implementations of the interface \<open>RollerVirtual\<close>, with the fields each adds to
  the embedded \<open>*RollingFileWriter\<close>: \<open>MaxFileSize\<close> for the size roller; \<open>TimePattern\<close>,
  \<open>Interval\<close> and \<open>CurrentTimeFileName\<close> for the time roller. The field \<open>Self\<close> of the
  writer holds one of them, and the virtual calls below dispatch on it.
\<close>

datatype roller =
    RollingFileWriterSize "64 word"
  | RollingFileWriterTime string "8 word" string

record RollingFileWriter =
  FileName :: string
  OriginalFileName :: string
  CurrentDirPath :: string
  CurrentFile :: "nat option"
  CurrentFileSize :: "64 word"
  RollingType :: "8 word"
  ArchiveType :: "8 word"
  ArchivePath :: string
  MaxRolls :: int
  Self :: roller

definition filepath_Split :: "string \<Rightarrow> string \<times> string" where
  "filepath_Split path =
     (let i = length path - length (takeWhile (\<lambda>c. c \<noteq> CHR ''/'') (rev path))
      in (take i path, drop i path))"

definition NewRollingFileWriter ::
  "string \<Rightarrow> 8 word \<Rightarrow> 8 word \<Rightarrow> string \<Rightarrow> int \<Rightarrow> roller \<Rightarrow> RollingFileWriter" where
  "NewRollingFileWriter fpath rtype atype apath maxr self =
     (case filepath_Split fpath of
        (dir, file) \<Rightarrow>
          \<lparr>FileName = file, OriginalFileName = file,
           CurrentDirPath = (if length dir = 0 then ''.'' else dir),
           CurrentFile = None, CurrentFileSize = 0,
           RollingType = rtype, ArchiveType = atype, ArchivePath = apath,
           MaxRolls = maxr, Self = self\<rparr>)"

definition NewRollingFileWriterSize ::
  "string \<Rightarrow> 8 word \<Rightarrow> string \<Rightarrow> 64 word \<Rightarrow> int \<Rightarrow> RollingFileWriter" where
  "NewRollingFileWriterSize fpath atype apath maxSize maxRolls =
     NewRollingFileWriter fpath RollingTypeSize atype apath maxRolls (RollingFileWriterSize maxSize)"

definition NewRollingFileWriterTime ::
  "string \<Rightarrow> 8 word \<Rightarrow> string \<Rightarrow> int \<Rightarrow> string \<Rightarrow> 8 word \<Rightarrow> RollingFileWriter" where
  "NewRollingFileWriterTime fpath atype apath maxr timePattern interval =
     NewRollingFileWriter fpath RollingTypeTime atype apath maxr
       (RollingFileWriterTime timePattern interval [])"

text \<open>
  \<open>FileName[len(OriginalFileName + "."):]\<close>: the slice expression panics when the name
  is shorter than the prefix; \<open>None\<close> is that panic.
\<close>

definition getFileTail :: "RollingFileWriter \<Rightarrow> string \<Rightarrow> string option" where
  "getFileTail rw name =
     (if length (OriginalFileName rw @ rollingLogHistoryDelimiter) \<le> length name
      then Some (drop (length (OriginalFileName rw @ rollingLogHistoryDelimiter)) name)
      else None)"

subsubsection \<open>The virtual functions\<close>

definition needsToRoll :: "RollingFileWriter \<Rightarrow> world \<Rightarrow> (bool \<times> error option) \<times> world" where
  "needsToRoll rw w =
     (case Self rw of
        RollingFileWriterSize maxFileSize \<Rightarrow>
          ((sint (CurrentFileSize rw) \<ge> sint maxFileSize, None), w)
      | RollingFileWriterTime timePattern interval ctfn \<Rightarrow>
          (case time_Now w of
             (now1, w1) \<Rightarrow>
               if OriginalFileName rw @ rollingLogHistoryDelimiter @ tformat w now1 timePattern
                    = FileName rw
               then ((False, None), w1)
               else if interval = RollingIntervalAny then ((True, None), w1)
               else (case getFileTail rw (FileName rw) of
                       None \<Rightarrow> ((False, Some Panic), w1)
                     | Some tail \<Rightarrow>
                         (case time_ParseInLocation w1 timePattern tail of
                            (tprev, Some err) \<Rightarrow> ((False, Some err), w1)
                          | (tprev, None) \<Rightarrow>
                              (case time_Now w1 of
                                 (now2, w2) \<Rightarrow>
                                   let diff = time_Sub now2 tprev
                                   in if interval = RollingIntervalDaily
                                      then ((diff \<ge> 24 * Hour, None), w2)
                                      else ((False,
                                             Some (Errorf (''unknown Interval type: ''
                                                     @ Sprintf_d (uint interval)))), w2))))))"

definition isFileTailValid :: "RollingFileWriter \<Rightarrow> world \<Rightarrow> string \<Rightarrow> bool" where
  "isFileTailValid rw w tail =
     (case Self rw of
        RollingFileWriterSize maxFileSize \<Rightarrow>
          if length tail = 0 then False
          else snd (Atoi tail) = None
      | RollingFileWriterTime timePattern interval ctfn \<Rightarrow>
          if length tail = 0 then False
          else snd (time_ParseInLocation w timePattern tail) = None)"

definition rollSizeFileTailsSlice_Less :: "string \<Rightarrow> string \<Rightarrow> bool" where
  "rollSizeFileTailsSlice_Less a b = (fst (Atoi a) < fst (Atoi b))"

definition rollTimeFileTailsSlice_Less :: "world \<Rightarrow> string \<Rightarrow> string \<Rightarrow> string \<Rightarrow> bool" where
  "rollTimeFileTailsSlice_Less w pattern a b =
     (fst (time_ParseInLocation w pattern a) < fst (time_ParseInLocation w pattern b))"

definition sortFileTailsAsc ::
  "RollingFileWriter \<Rightarrow> world \<Rightarrow> string list \<Rightarrow> string list \<times> error option" where
  "sortFileTailsAsc rw w fs =
     (case Self rw of
        RollingFileWriterSize maxFileSize \<Rightarrow> (sort_Sort rollSizeFileTailsSlice_Less fs, None)
      | RollingFileWriterTime timePattern interval ctfn \<Rightarrow>
          (sort_Sort (rollTimeFileTailsSlice_Less w timePattern) fs, None))"

definition getNewHistoryFileNameTail :: "RollingFileWriter \<Rightarrow> string \<Rightarrow> string" where
  "getNewHistoryFileNameTail rw lastRollFileTail =
     (case Self rw of
        RollingFileWriterSize maxFileSize \<Rightarrow>
          (let v = (if length lastRollFileTail \<noteq> 0 then fst (Atoi lastRollFileTail) else 0)
           in Sprintf_d (wrap_int (v + 1)))
      | RollingFileWriterTime timePattern interval ctfn \<Rightarrow> [])"

definition getCurrentModifiedFileName ::
  "RollingFileWriter \<Rightarrow> string \<Rightarrow> world \<Rightarrow> string \<times> world" where
  "getCurrentModifiedFileName rw originalFileName w =
     (case Self rw of
        RollingFileWriterSize maxFileSize \<Rightarrow> (originalFileName, w)
      | RollingFileWriterTime timePattern interval ctfn \<Rightarrow>
          (case time_Now w of
             (now, w') \<Rightarrow>
               (originalFileName @ rollingLogHistoryDelimiter @ tformat w now timePattern, w')))"

subsubsection \<open>The skeleton\<close>

text \<open>The first loop of \<open>getSortedLogHistory\<close>: the valid tails, in the order of the scan.\<close>

fun validFileTails :: "RollingFileWriter \<Rightarrow> world \<Rightarrow> string list \<Rightarrow> error + string list" where
  "validFileTails rw w [] = Inr []"
| "validFileTails rw w (file # files) =
     (if file \<noteq> FileName rw
         \<and> prefix (OriginalFileName rw @ rollingLogHistoryDelimiter) file
      then (case getFileTail rw file of
              None \<Rightarrow> Inl Panic
            | Some tail \<Rightarrow>
                (case validFileTails rw w files of
                   Inl e \<Rightarrow> Inl e
                 | Inr tails \<Rightarrow> Inr (if isFileTailValid rw w tail then tail # tails else tails)))
      else validFileTails rw w files)"

text \<open>\<open>getSortedLogHistory\<close> after the scan of the directory has returned \<open>files\<close>.\<close>

definition sortedLogHistory_of :: "RollingFileWriter \<Rightarrow> world \<Rightarrow> string list \<Rightarrow> error + string list" where
  "sortedLogHistory_of rw w files =
     (case validFileTails rw w files of
        Inl e \<Rightarrow> Inl e
      | Inr tails \<Rightarrow>
          (case sortFileTailsAsc rw w tails of
             (sortedTails, Some err) \<Rightarrow> Inl err
           | (sortedTails, None) \<Rightarrow>
               Inr (map (\<lambda>v. OriginalFileName rw @ rollingLogHistoryDelimiter @ v) sortedTails)))"

definition getSortedLogHistory :: "RollingFileWriter \<Rightarrow> world \<Rightarrow> (error + string list) \<times> world" where
  "getSortedLogHistory rw w =
     (case getDirFilePaths (CurrentDirPath rw) None True w of
        (Inl err, w1) \<Rightarrow> (Inl err, w1)
      | (Inr files, w1) \<Rightarrow> (sortedLogHistory_of rw w1 files, w1))"

definition createFileAndFolderIfNeeded ::
  "RollingFileWriter \<Rightarrow> world \<Rightarrow> error option \<times> RollingFileWriter \<times> world" where
  "createFileAndFolderIfNeeded rw w =
     (case (if length (CurrentDirPath rw) \<noteq> 0 then os_MkdirAll w else (None, w)) of
        (Some err, w1) \<Rightarrow> (Some err, rw, w1)
      | (None, w1) \<Rightarrow>
          (case getCurrentModifiedFileName rw (OriginalFileName rw) w1 of
             (name, w2) \<Rightarrow>
               (let rw1 = rw\<lparr>FileName := name\<rparr>
                in case os_Lstat name w2 of
                     (Inr stat, w3) \<Rightarrow>
                       (case os_OpenFile_append name w3 of
                          (opened, w4) \<Rightarrow>
                            (let rw2 = rw1\<lparr>CurrentFile :=
                                              (case opened of Inl err \<Rightarrow> None | Inr fd \<Rightarrow> Some fd)\<rparr>
                             in case os_Lstat name w4 of
                                  (Inl err, w5) \<Rightarrow> (Some err, rw2, w5)
                                | (Inr stat2, w5) \<Rightarrow>
                                    (None, rw2\<lparr>CurrentFileSize := stat_Size stat2\<rparr>, w5)))
                   | (Inl lerr, w3) \<Rightarrow>
                       (case os_Create name w3 of
                          (Inl err, w4) \<Rightarrow>
                            (Some err, rw1\<lparr>CurrentFile := None, CurrentFileSize := 0\<rparr>, w4)
                        | (Inr fd, w4) \<Rightarrow>
                            (None, rw1\<lparr>CurrentFile := Some fd, CurrentFileSize := 0\<rparr>, w4)))))"

definition tryRemoveFile :: "string \<Rightarrow> world \<Rightarrow> error option \<times> world" where
  "tryRemoveFile name w =
     (case os_Remove name w of
        (err, w') \<Rightarrow> if os_IsNotExist err then (None, w') else (err, w'))"

text \<open>The loop of \<open>deleteOldRolls\<close> over \<open>history[0 .. rollsToDelete - 1]\<close>.\<close>

fun removeRolls :: "string list \<Rightarrow> world \<Rightarrow> error option \<times> world" where
  "removeRolls [] w = (None, w)"
| "removeRolls (roll # rolls) w =
     (case tryRemoveFile roll w of
        (Some err, w') \<Rightarrow> (Some err, w')
      | (None, w') \<Rightarrow> removeRolls rolls w')"

definition deleteOldRolls :: "RollingFileWriter \<Rightarrow> string list \<Rightarrow> world \<Rightarrow> error option \<times> world" where
  "deleteOldRolls rw history w =
     (if MaxRolls rw \<le> 0 then (None, w)
      else let rollsToDelete = int (length history) - MaxRolls rw
           in if rollsToDelete \<le> 0 then (None, w)
              else removeRolls (take (nat rollsToDelete) history) w)"

text \<open>
  \<open>Write\<close>, in the pieces of its rotation branch. \<open>newTail_of\<close> is the choice of the new
  tail from the sorted history, \<open>Write_rename\<close> names the new history entry, renames the
  current file to it and appends it to the history, \<open>Write_prune\<close> is the guarded call of
  \<open>deleteOldRolls\<close>, \<open>Write_roll\<close> is the whole branch.
\<close>

definition newTail_of :: "RollingFileWriter \<Rightarrow> string list \<Rightarrow> string option" where
  "newTail_of rw history =
     (if length history > 0
      then (case getFileTail rw (history ! (length history - 1)) of
              None \<Rightarrow> None
            | Some lastTail \<Rightarrow> Some (getNewHistoryFileNameTail rw lastTail))
      else Some (getNewHistoryFileNameTail rw []))"

definition newHistoryName_of :: "RollingFileWriter \<Rightarrow> string \<Rightarrow> string" where
  "newHistoryName_of rw newTail =
     (if length newTail \<noteq> 0 then FileName rw @ rollingLogHistoryDelimiter @ newTail
      else FileName rw)"

definition Write_rename ::
  "RollingFileWriter \<Rightarrow> string list \<Rightarrow> world \<Rightarrow> (error + string list) \<times> world" where
  "Write_rename rw history w =
     (case newTail_of rw history of
        None \<Rightarrow> (Inl Panic, w)
      | Some newTail \<Rightarrow>
          (let newHistoryName = newHistoryName_of rw newTail
           in case (if newHistoryName \<noteq> FileName rw
                    then os_Rename (FileName rw) newHistoryName w else (None, w)) of
                (Some err, w1) \<Rightarrow> (Inl err, w1)
              | (None, w1) \<Rightarrow> (Inr (history @ [newHistoryName]), w1)))"

definition Write_prune :: "RollingFileWriter \<Rightarrow> string list \<Rightarrow> world \<Rightarrow> error option \<times> world" where
  "Write_prune rw history w =
     (if int (length history) > MaxRolls rw then deleteOldRolls rw history w else (None, w))"

definition Write_roll :: "RollingFileWriter \<Rightarrow> world \<Rightarrow> error option \<times> RollingFileWriter \<times> world" where
  "Write_roll rw w =
     (case File_Close (CurrentFile rw) w of
        (Some err, w1) \<Rightarrow> (Some err, rw, w1)
      | (None, w1) \<Rightarrow>
          (case getSortedLogHistory rw w1 of
             (Inl err, w2) \<Rightarrow> (Some err, rw, w2)
           | (Inr history, w2) \<Rightarrow>
               (case Write_rename rw history w2 of
                  (Inl err, w3) \<Rightarrow> (Some err, rw, w3)
                | (Inr history', w3) \<Rightarrow>
                    (case Write_prune rw history' w3 of
                       (Some err, w4) \<Rightarrow> (Some err, rw, w4)
                     | (None, w4) \<Rightarrow> createFileAndFolderIfNeeded rw w4))))"

definition Write ::
  "RollingFileWriter \<Rightarrow> string \<Rightarrow> world \<Rightarrow> (nat \<times> error option) \<times> RollingFileWriter \<times> world" where
  "Write rw bytes w =
     (case (if CurrentFile rw = None then createFileAndFolderIfNeeded rw w else (None, rw, w)) of
        (Some err, rw1, w1) \<Rightarrow> ((0, Some err), rw1, w1)
      | (None, rw1, w1) \<Rightarrow>
          (case needsToRoll rw1 w1 of
             ((nr, Some err), w2) \<Rightarrow> ((0, Some err), rw1, w2)
           | ((nr, None), w2) \<Rightarrow>
               (case (if nr then Write_roll rw1 w2 else (None, rw1, w2)) of
                  (Some err, rw3, w3) \<Rightarrow> ((0, Some err), rw3, w3)
                | (None, rw3, w3) \<Rightarrow>
                    (let rw4 = rw3\<lparr>CurrentFileSize :=
                                     CurrentFileSize rw3 + of_nat (length bytes)\<rparr>
                     in case File_Write (CurrentFile rw4) bytes w3 of
                          (res, w4) \<Rightarrow> (res, rw4, w4)))))"

definition Close :: "RollingFileWriter \<Rightarrow> world \<Rightarrow> error option \<times> RollingFileWriter \<times> world" where
  "Close rw w =
     (if CurrentFile rw \<noteq> None
      then (case File_Close (CurrentFile rw) w of
              (Some e, w') \<Rightarrow> (Some e, rw, w')
            | (None, w') \<Rightarrow> (None, rw\<lparr>CurrentFile := None\<rparr>, w'))
      else (None, rw, w))"

text \<open>A sequence of calls of \<open>Write\<close>, every one of which returns a nil error.\<close>

fun writes ::
  "RollingFileWriter \<Rightarrow> world \<Rightarrow> string list \<Rightarrow> (RollingFileWriter \<times> world) option" where
  "writes rw w [] = Some (rw, w)"
| "writes rw w (bytes # rest) =
     (case Write rw bytes w of
        ((n, None), rw', w') \<Rightarrow> writes rw' w' rest
      | ((n, Some err), rw', w') \<Rightarrow> None)"

subsection \<open>Example states\<close>

text \<open>
  A world with an empty directory in which no system call fails, and the writers of the
  scenarios: \<open>a.log\<close> rolled at 10 bytes with 3 rolls kept, and \<open>a.log\<close> rolled daily.
  The example time format prints the day number, and the example parser reads it back.
\<close>

definition example_world :: world where
  "example_world =
     \<lparr>entries = [], fds = [], next_fd = 3, plan = (\<lambda>n. None), clock = (\<lambda>n. 0), steps = 0,
      tformat = (\<lambda>t p. Sprintf_d (t div (24 * Hour))),
      tparse = (\<lambda>p s. if snd (Atoi s) = None then Some (fst (Atoi s) * (24 * Hour)) else None),
      is_abs = (\<lambda>p. True), abs_path = (\<lambda>p. Inr p), join_path = (\<lambda>a b. a @ ''/'' @ b)\<rparr>"

definition example_size_writer :: RollingFileWriter where
  "example_size_writer = NewRollingFileWriterSize ''a.log'' 0 [] 10 3"

definition example_time_writer :: RollingFileWriter where
  "example_time_writer = NewRollingFileWriterTime ''a.log'' 0 [] 2 ''day'' RollingIntervalDaily"

definition regular_file :: "string \<Rightarrow> fentry" where
  "regular_file bs = \<lparr>fmode = 438, fdata = bs\<rparr>"

text \<open>
  \<open>a.log\<close> exists with 7 bytes and cannot be opened for writing: the third system call
  of \<open>createFileAndFolderIfNeeded\<close>, the open for append, fails with errno 13.
\<close>

definition existing_unwritable :: world where
  "existing_unwritable =
     example_world\<lparr>entries := [(''a.log'', regular_file ''1234567'')],
                   plan := (\<lambda>n. if n = 2 then Some (13, 0) else None)\<rparr>"

text \<open>\<open>a.log\<close> is open and empty; the next write fails with errno 28 after 3 bytes.\<close>

definition short_write_world :: world where
  "short_write_world =
     example_world\<lparr>entries := [(''a.log'', regular_file [])], fds := [(3, ''a.log'')],
                   plan := (\<lambda>n. if n = 0 then Some (28, 3) else None)\<rparr>"

text \<open>\<open>a.log\<close> is open and empty, and nothing fails.\<close>

definition open_world :: world where
  "open_world = example_world\<lparr>entries := [(''a.log'', regular_file [])], fds := [(3, ''a.log'')]\<rparr>"

text \<open>The clock reads 25 hours after the epoch, on the day after day 0.\<close>

definition day_later_world :: world where
  "day_later_world = example_world\<lparr>clock := (\<lambda>n. 90000000000000)\<rparr>"

text \<open>A directory with a subdirectory, a rolled file and a symbolic link.\<close>

definition mixed_world :: world where
  "mixed_world =
     example_world\<lparr>entries := [(''sub'', \<lparr>fmode = ModeDir OR 493, fdata = []\<rparr>),
                               (''a.log.1'', regular_file ''x''),
                               (''link'', \<lparr>fmode = ModeSymlink OR 511, fdata = ''a.log.1''\<rparr>)]\<rparr>"

text \<open>\<open>a.log\<close> is open on descriptor 3 and the close of the file fails with errno 5.\<close>

definition failing_close_world :: world where
  "failing_close_world =
     example_world\<lparr>entries := [(''a.log'', regular_file [])], fds := [(3, ''a.log'')],
                   plan := (\<lambda>n. if n = 0 then Some (5, 0) else None)\<rparr>"

text \<open>
  \<open>a.log\<close> holds 11 bytes and is open on descriptor 3; the second system call from
  now, the open of the directory during rotation, fails with errno 13.
\<close>

definition failing_scan_world :: world where
  "failing_scan_world =
     example_world\<lparr>entries := [(''a.log'', regular_file ''0123456789X'')], fds := [(3, ''a.log'')],
                   plan := (\<lambda>n. if n = 1 then Some (13, 0) else None)\<rparr>"

text \<open>
  \<open>a.log\<close> holds 11 bytes, next to the rolls \<open>a.log.1\<close>, \<open>a.log.-1\<close> and \<open>a.log.2\<close>.
\<close>

definition signed_tails_world :: world where
  "signed_tails_world =
     example_world\<lparr>entries := [(''a.log.1'', regular_file ''b''), (''a.log.-1'', regular_file ''a''),
                               (''a.log.2'', regular_file ''c''),
                               (''a.log'', regular_file ''0123456789X'')]\<rparr>"

text \<open>The rolls \<open>a.log.1\<close>, \<open>a.log.2\<close> and \<open>a.log.3\<close> next to \<open>a.log\<close>.\<close>

definition cascade_world :: world where
  "cascade_world =
     example_world\<lparr>entries := [(''a.log.1'', regular_file ''A''), (''a.log.2'', regular_file ''B''),
                               (''a.log.3'', regular_file ''C''), (''a.log'', regular_file ''D'')]\<rparr>"

text \<open>
  The same rolls; \<open>a.log\<close> holds 11 bytes and is open on descriptor 3. The sixth system
  call from now, the removal of the oldest roll during rotation, fails with errno 13.
\<close>

definition failing_remove_world :: world where
  "failing_remove_world =
     example_world\<lparr>entries := [(''a.log.1'', regular_file ''A''), (''a.log.2'', regular_file ''B''),
                               (''a.log.3'', regular_file ''C''),
                               (''a.log'', regular_file ''0123456789X'')],
                   fds := [(3, ''a.log'')],
                   plan := (\<lambda>n. if n = 5 then Some (13, 0) else None)\<rparr>"

subsection \<open>Auxiliary notions for the statements\<close>

text \<open>The string \<open>getDirFilePaths\<close> emits for an entry, and the test of its filter.\<close>

definition path_of :: "world \<Rightarrow> string \<Rightarrow> bool \<Rightarrow> string \<Rightarrow> string" where
  "path_of w absDirPath pathIsName name =
     (if pathIsName then name else join_path w absDirPath name)"

definition passes :: "(string \<Rightarrow> bool) option \<Rightarrow> string \<Rightarrow> bool" where
  "passes fpFilter fp = (case fpFilter of None \<Rightarrow> True | Some flt \<Rightarrow> flt fp)"

text \<open>
  The key by which a roller's \<open>Less\<close> compares two tails, the prefix of the history
  names, and the names \<open>getSortedLogHistory\<close> is to keep.
\<close>

definition tail_key :: "RollingFileWriter \<Rightarrow> world \<Rightarrow> string \<Rightarrow> int" where
  "tail_key rw w tail =
     (case Self rw of
        RollingFileWriterSize maxFileSize \<Rightarrow> fst (Atoi tail)
      | RollingFileWriterTime timePattern interval ctfn \<Rightarrow>
          fst (time_ParseInLocation w timePattern tail))"

definition history_prefix :: "RollingFileWriter \<Rightarrow> string" where
  "history_prefix rw = OriginalFileName rw @ ''.''"

definition is_history_name :: "RollingFileWriter \<Rightarrow> world \<Rightarrow> string \<Rightarrow> bool" where
  "is_history_name rw w f =
     (f \<noteq> FileName rw \<and> prefix (history_prefix rw) f
      \<and> isFileTailValid rw w (drop (length (history_prefix rw)) f))"

section \<open>Properties\<close>

subsection \<open>System calls\<close>

lemma syscall_simps [simp]:
  "fst (syscall w) = plan w (steps w)"
  "snd (syscall w) = w\<lparr>steps := Suc (steps w)\<rparr>"
  by (simp_all add: syscall_def)

lemma map_of_filter_fd [simp]: "map_of (filter (\<lambda>(d, n). d \<noteq> fd) xs) fd = None"
  by (induction xs) auto

lemma example_size_writer_simps [simp]:
  "FileName example_size_writer = ''a.log''"
  "OriginalFileName example_size_writer = ''a.log''"
  "CurrentDirPath example_size_writer = ''.''"
  "CurrentFile example_size_writer = None"
  "CurrentFileSize example_size_writer = 0"
  "MaxRolls example_size_writer = 3"
  "Self example_size_writer = RollingFileWriterSize 10"
  by (simp_all add: example_size_writer_def NewRollingFileWriterSize_def
        NewRollingFileWriter_def filepath_Split_def)

lemma example_world_simps [simp]:
  "entries example_world = []"
  "fds example_world = []"
  "next_fd example_world = 3"
  "plan example_world = (\<lambda>n. None)"
  "clock example_world = (\<lambda>n. 0)"
  "steps example_world = 0"
  "is_abs example_world = (\<lambda>p. True)"
  "abs_path example_world = (\<lambda>p. Inr p)"
  "join_path example_world = (\<lambda>a b. a @ ''/'' @ b)"
  by (simp_all add: example_world_def)

subsection \<open>Close\<close>

text \<open>
  C8, as stated, fails. An open handle is not always released: when the close of the
  file fails, \<open>Close\<close> returns the error and keeps \<open>CurrentFile\<close>, and the next \<open>Close\<close>
  fails with \<open>ErrClosed\<close>. And a writer with no open handle is not always left alone with
  success: after a rotation that has closed the file and then failed, \<open>CurrentFile\<close> is a
  closed file, and \<open>Close\<close> returns \<open>ErrClosed\<close>.
\<close>

theorem Close_keeps_handle_on_error:
  "map_of (fds failing_close_world) 3 = Some ''a.log''
   \<and> fst (Close (example_size_writer\<lparr>CurrentFile := Some 3\<rparr>) failing_close_world)
       = Some (ErrIO 5)
   \<and> CurrentFile (fst (snd (Close (example_size_writer\<lparr>CurrentFile := Some 3\<rparr>)
         failing_close_world))) = Some 3
   \<and> fst (Close (fst (snd (Close (example_size_writer\<lparr>CurrentFile := Some 3\<rparr>)
                               failing_close_world)))
               (snd (snd (Close (example_size_writer\<lparr>CurrentFile := Some 3\<rparr>)
                               failing_close_world))))
       = Some ErrClosed
   \<and> fst (Write (example_size_writer\<lparr>CurrentFile := Some 3, CurrentFileSize := 11\<rparr>) ''Y''
            failing_scan_world)
       = (0, Some (CannotOpenFileError ''Cannot open file: Cannot open directory .''))
   \<and> CurrentFile (fst (snd (Write (example_size_writer\<lparr>CurrentFile := Some 3,
         CurrentFileSize := 11\<rparr>) ''Y'' failing_scan_world))) = Some 3
   \<and> fds (snd (snd (Write (example_size_writer\<lparr>CurrentFile := Some 3,
         CurrentFileSize := 11\<rparr>) ''Y'' failing_scan_world))) = []
   \<and> fst (Close (fst (snd (Write (example_size_writer\<lparr>CurrentFile := Some 3,
                      CurrentFileSize := 11\<rparr>) ''Y'' failing_scan_world)))
               (snd (snd (Write (example_size_writer\<lparr>CurrentFile := Some 3,
                      CurrentFileSize := 11\<rparr>) ''Y'' failing_scan_world))))
       = Some ErrClosed"
  by (intro conjI; code_simp)

text \<open>
  C8, amended. With no handle (\<open>CurrentFile\<close> is nil) \<open>Close\<close> is a no-op that returns
  success. With an open handle the descriptor is closed in every case; when the close of
  the file succeeds, \<open>Close\<close> returns success and releases the handle; when it fails,
  \<open>Close\<close> returns that error and keeps the handle. With a handle that is already
  closed, \<open>Close\<close> returns \<open>ErrClosed\<close> and changes nothing. After any call that returns
  success the writer holds no handle, the handle it held is not open, and a second
  \<open>Close\<close> returns success and changes nothing.
\<close>

theorem Close_idempotent:
  "(CurrentFile rw = None \<longrightarrow> Close rw w = (None, rw, w))
   \<and> (\<forall>fd. CurrentFile rw = Some fd \<and> map_of (fds w) fd \<noteq> None \<longrightarrow>
         map_of (fds (snd (snd (Close rw w)))) fd = None
         \<and> (plan w (steps w) = None \<longrightarrow>
              fst (Close rw w) = None \<and> fst (snd (Close rw w)) = rw\<lparr>CurrentFile := None\<rparr>)
         \<and> (\<forall>e k. plan w (steps w) = Some (e, k) \<longrightarrow>
              fst (Close rw w) = Some (ErrIO e) \<and> fst (snd (Close rw w)) = rw))
   \<and> (\<forall>fd. CurrentFile rw = Some fd \<and> map_of (fds w) fd = None \<longrightarrow>
         Close rw w = (Some ErrClosed, rw, w))
   \<and> (\<forall>rw' w'. Close rw w = (None, rw', w') \<longrightarrow>
         CurrentFile rw' = None
         \<and> (\<forall>fd. CurrentFile rw = Some fd \<longrightarrow> map_of (fds w') fd = None)
         \<and> Close rw' w' = (None, rw', w'))"
  by (auto simp: Close_def File_Close_def syscall_def split: option.splits prod.splits)

theorem Close_idempotent_witness:
  "CurrentFile (example_size_writer\<lparr>CurrentFile := Some 3\<rparr>) = Some 3
   \<and> map_of (fds open_world) 3 \<noteq> None
   \<and> plan open_world (steps open_world) = None
   \<and> fst (Close (example_size_writer\<lparr>CurrentFile := Some 3\<rparr>) open_world) = None
   \<and> fst (snd (Close (example_size_writer\<lparr>CurrentFile := Some 3\<rparr>) open_world))
       = example_size_writer\<lparr>CurrentFile := Some 3, CurrentFile := None\<rparr>
   \<and> map_of (fds (snd (snd (Close (example_size_writer\<lparr>CurrentFile := Some 3\<rparr>) open_world)))) 3
       = None
   \<and> fst (Close (fst (snd (Close (example_size_writer\<lparr>CurrentFile := Some 3\<rparr>) open_world)))
               (snd (snd (Close (example_size_writer\<lparr>CurrentFile := Some 3\<rparr>) open_world))))
       = None
   \<and> plan failing_close_world (steps failing_close_world) = Some (5, 0)
   \<and> fst (Close (example_size_writer\<lparr>CurrentFile := Some 3\<rparr>) failing_close_world)
       = Some (ErrIO 5)
   \<and> fst (snd (Close (example_size_writer\<lparr>CurrentFile := Some 3\<rparr>) failing_close_world))
       = example_size_writer\<lparr>CurrentFile := Some 3\<rparr>"
proof -
  let ?rw = "example_size_writer\<lparr>CurrentFile := Some 3\<rparr>"
  have h: "CurrentFile ?rw = Some 3" by simp
  have o: "map_of (fds open_world) 3 \<noteq> None" by (simp add: open_world_def)
  have p: "plan open_world (steps open_world) = None" by (simp add: open_world_def)
  have f: "map_of (fds failing_close_world) 3 \<noteq> None" by (simp add: failing_close_world_def)
  have q: "plan failing_close_world (steps failing_close_world) = Some (5, 0)"
    by (simp add: failing_close_world_def)
  note A = Close_idempotent [of ?rw open_world]
  note B = Close_idempotent [of ?rw failing_close_world]
  have a1: "fst (Close ?rw open_world) = None
            \<and> fst (snd (Close ?rw open_world)) = ?rw\<lparr>CurrentFile := None\<rparr>
            \<and> map_of (fds (snd (snd (Close ?rw open_world)))) 3 = None"
    using A h o p by blast
  then have "Close ?rw open_world
               = (None, fst (snd (Close ?rw open_world)), snd (snd (Close ?rw open_world)))"
    by (simp add: prod_eq_iff)
  then have a2: "fst (Close (fst (snd (Close ?rw open_world))) (snd (snd (Close ?rw open_world))))
                   = None"
    using A by (metis fst_conv)
  have b1: "fst (Close ?rw failing_close_world) = Some (ErrIO 5)
            \<and> fst (snd (Close ?rw failing_close_world)) = ?rw"
    using B h f q by blast
  show ?thesis
    using h o p q a1 a2 b1 by simp
qed

lemmas os_defs = syscall_def os_MkdirAll_def os_Lstat_def os_OpenFile_append_def os_Create_def
  os_Rename_def os_Remove_def File_Close_def File_Write_def new_fd_def stat_Size_def
  truncate_entry_def rename_entry_def append_entry_def os_IsNotExist_def

lemma is_dir_mode_438 [simp]: "\<not> is_dir_mode 438"
  by (simp add: is_dir_mode_def ModeDir_def)

lemma isRegular_438 [simp]: "isRegular 438"
  by (simp add: isRegular_def ModeType_def ModeDir_def ModeSymlink_def ModeDevice_def
        ModeNamedPipe_def ModeSocket_def ModeCharDevice_def ModeIrregular_def)

subsection \<open>Opening the current file\<close>

text \<open>
  C3. Every filesystem error inside \<open>createFileAndFolderIfNeeded\<close> should reach the
  caller. It does not when the file exists and the open for append fails: here the open
  fails with errno 13, \<open>createFileAndFolderIfNeeded\<close> returns nil all the same, with a
  nil \<open>CurrentFile\<close> and the size of the file on disk, and the enclosing \<open>Write\<close> fails
  with \<open>ErrInvalid\<close> of the nil file, not with the error of the open.
\<close>

theorem createFileAndFolderIfNeeded_masks_open_error:
  "fst (os_OpenFile_append ''a.log'' (existing_unwritable\<lparr>steps := 2\<rparr>)) = Inl (ErrIO 13)
   \<and> createFileAndFolderIfNeeded example_size_writer existing_unwritable
       = (None, example_size_writer\<lparr>CurrentFile := None, CurrentFileSize := 7\<rparr>,
          existing_unwritable\<lparr>steps := 4\<rparr>)
   \<and> fst (Write example_size_writer ''ab'' existing_unwritable) = (0, Some ErrInvalid)"
  by (simp add: createFileAndFolderIfNeeded_def Write_def needsToRoll_def
        getCurrentModifiedFileName_def existing_unwritable_def os_defs regular_file_def)

subsection \<open>The append of \<open>Write\<close>\<close>

lemma File_Write_full:
  "snd (fst (File_Write file bs w)) = None \<Longrightarrow> fst (fst (File_Write file bs w)) = length bs"
  by (auto simp: File_Write_def split: option.splits prod.splits)

text \<open>
  C4, as stated, fails: \<open>CurrentFileSize\<close> grows by the length of the bytes handed to
  \<open>Write\<close>, not by the number of bytes the file write appended. Here the file write
  appends 3 of 11 bytes and fails; \<open>Write\<close> returns that count and error, and
  \<open>CurrentFileSize\<close> has grown by 11.
\<close>

theorem Write_counts_bytes_not_appended:
  "fst (Write (example_size_writer\<lparr>CurrentFile := Some 3\<rparr>) ''0123456789X'' short_write_world)
     = (3, Some (ErrIO 28))
   \<and> entries (snd (snd (Write (example_size_writer\<lparr>CurrentFile := Some 3\<rparr>) ''0123456789X''
         short_write_world))) = [(''a.log'', regular_file ''012'')]
   \<and> CurrentFileSize (fst (snd (Write (example_size_writer\<lparr>CurrentFile := Some 3\<rparr>)
         ''0123456789X'' short_write_world)))
       = CurrentFileSize (example_size_writer\<lparr>CurrentFile := Some 3\<rparr>) + 11"
  by (simp add: Write_def needsToRoll_def short_write_world_def os_defs regular_file_def)

text \<open>
  C4, amended. For a write on a writer with an open file whose roll check returns no
  error and whose rotation, if one is needed, succeeds: the returned count and error
  are exactly those of the file write, and \<open>CurrentFileSize\<close> is the size after the roll
  check and rotation plus the length of the bytes, whatever the file write appended.
  Without rotation, \<open>CurrentFileSize\<close> after the write is \<open>CurrentFileSize\<close> before plus
  the length of the bytes. When \<open>Write\<close> returns no error, the count is that length.
\<close>

theorem Write_size_accounting:
  assumes "CurrentFile rw \<noteq> None"
      and "needsToRoll rw w = ((nr, None), w2)"
      and "(if nr then Write_roll rw w2 else (None, rw, w2)) = (None, rw3, w3)"
  shows "Write rw bytes w
           = (fst (File_Write (CurrentFile rw3) bytes w3),
              rw3\<lparr>CurrentFileSize := CurrentFileSize rw3 + of_nat (length bytes)\<rparr>,
              snd (File_Write (CurrentFile rw3) bytes w3))
         \<and> (\<not> nr \<longrightarrow> CurrentFileSize (fst (snd (Write rw bytes w)))
                        = CurrentFileSize rw + of_nat (length bytes))
         \<and> (snd (fst (Write rw bytes w)) = None \<longrightarrow> fst (fst (Write rw bytes w)) = length bytes)"
  using assms File_Write_full [of "CurrentFile rw3" bytes w3]
  by (auto simp: Write_def split: prod.splits)

theorem Write_size_accounting_witness:
  "CurrentFile (example_size_writer\<lparr>CurrentFile := Some 3\<rparr>) \<noteq> None
   \<and> needsToRoll (example_size_writer\<lparr>CurrentFile := Some 3\<rparr>) open_world
       = ((False, None), open_world)
   \<and> Write (example_size_writer\<lparr>CurrentFile := Some 3\<rparr>) ''ab'' open_world
       = ((2, None), example_size_writer\<lparr>CurrentFile := Some 3, CurrentFileSize := 2\<rparr>,
          open_world\<lparr>entries := [(''a.log'', regular_file ''ab'')], steps := 1\<rparr>)"
  using Write_size_accounting [of "example_size_writer\<lparr>CurrentFile := Some 3\<rparr>" open_world
          False open_world "example_size_writer\<lparr>CurrentFile := Some 3\<rparr>" open_world "''ab''"]
  by (simp add: needsToRoll_def open_world_def os_defs regular_file_def)

lemma time_Sub_ge_day: "(time_Sub t u \<ge> 24 * Hour) = (t - u \<ge> 24 * Hour)"
  by (simp add: time_Sub_def MaxInt_def MinInt_def Hour_def)

subsection \<open>The roll check of the time roller\<close>

text \<open>
  C6. \<open>needsToRoll\<close> of the time roller returns false when
  \<open>OriginalFileName + "." + now.Format(TimePattern)\<close> is the current file name;
  otherwise true when the interval is \<open>RollingIntervalAny\<close>; otherwise it parses the
  tail of the current name (the name being at least as long as the prefix) and returns
  the parse error if there is one, for \<open>RollingIntervalDaily\<close> whether now minus the
  parsed instant is at least 24 hours, and an error for any other interval. The code
  reads the clock twice: the name is formatted from the first reading, the difference
  is taken from the second.
\<close>

theorem needsToRoll_time:
  assumes "Self rw = RollingFileWriterTime pattern interval ctfn"
  shows "(OriginalFileName rw @ ''.'' @ tformat w (clock w (steps w)) pattern = FileName rw \<longrightarrow>
            fst (needsToRoll rw w) = (False, None))
       \<and> (OriginalFileName rw @ ''.'' @ tformat w (clock w (steps w)) pattern \<noteq> FileName rw
            \<and> interval = RollingIntervalAny \<longrightarrow>
            fst (needsToRoll rw w) = (True, None))
       \<and> (OriginalFileName rw @ ''.'' @ tformat w (clock w (steps w)) pattern \<noteq> FileName rw
            \<and> interval \<noteq> RollingIntervalAny
            \<and> length (OriginalFileName rw @ ''.'') \<le> length (FileName rw) \<longrightarrow>
            (case tparse w pattern (drop (length (OriginalFileName rw @ ''.'')) (FileName rw)) of
               None \<Rightarrow>
                 fst (needsToRoll rw w)
                   = (False, Some (ParseError pattern
                                     (drop (length (OriginalFileName rw @ ''.'')) (FileName rw))))
             | Some tprev \<Rightarrow>
                 if interval = RollingIntervalDaily
                 then fst (needsToRoll rw w)
                        = (clock w (Suc (steps w)) - tprev \<ge> 24 * Hour, None)
                 else \<exists>msg. fst (needsToRoll rw w) = (False, Some (Errorf msg))))"
  using assms
  by (auto simp: needsToRoll_def time_Now_def getFileTail_def time_ParseInLocation_def
        rollingLogHistoryDelimiter_def time_Sub_ge_day split: option.splits)

lemma example_time_writer_simps [simp]:
  "FileName example_time_writer = ''a.log''"
  "OriginalFileName example_time_writer = ''a.log''"
  "CurrentDirPath example_time_writer = ''.''"
  "CurrentFile example_time_writer = None"
  "CurrentFileSize example_time_writer = 0"
  "MaxRolls example_time_writer = 2"
  "Self example_time_writer = RollingFileWriterTime ''day'' RollingIntervalDaily []"
  by (simp_all add: example_time_writer_def NewRollingFileWriterTime_def
        NewRollingFileWriter_def filepath_Split_def)

theorem needsToRoll_time_witness:
  "Self (example_time_writer\<lparr>FileName := ''a.log.0''\<rparr>)
     = RollingFileWriterTime ''day'' RollingIntervalDaily []
   \<and> fst (needsToRoll (example_time_writer\<lparr>FileName := ''a.log.0''\<rparr>) day_later_world)
       = (True, None)"
proof -
  let ?rw = "example_time_writer\<lparr>FileName := ''a.log.0''\<rparr>"
  have s: "Self ?rw = RollingFileWriterTime ''day'' RollingIntervalDaily []"
    by simp
  have f: "OriginalFileName ?rw @ ''.''
             @ tformat day_later_world (clock day_later_world (steps day_later_world)) ''day''
           \<noteq> FileName ?rw"
    by code_simp
  have i: "RollingIntervalDaily \<noteq> RollingIntervalAny"
    by code_simp
  have l: "length (OriginalFileName ?rw @ ''.'') \<le> length (FileName ?rw)"
    by simp
  have p: "tparse day_later_world ''day'' (drop (length (OriginalFileName ?rw @ ''.'')) (FileName ?rw))
             = Some 0"
    by code_simp
  have c: "clock day_later_world (Suc (steps day_later_world)) - 0 \<ge> 24 * Hour"
    by code_simp
  show ?thesis
    using needsToRoll_time [OF s, of day_later_world] f i l p c by simp
qed

lemma path_of_steps [simp]: "path_of (w\<lparr>steps := k\<rparr>) = path_of w"
  by (simp add: path_of_def fun_eq_iff)

subsection \<open>The directory scan\<close>

lemma scan_chunk_eq:
  "scan_chunk w a flt p fis acc
     = acc @ filter (passes flt)
               (map (\<lambda>fi. path_of w a p (fst fi)) (filter (\<lambda>fi. isRegular (fmode (snd fi))) fis))"
  by (induction fis arbitrary: acc) (auto simp: path_of_def passes_def split: option.splits)

lemma readdir_loop_ok:
  "readdir_loop a flt p rest acc w = (Inr paths, w') \<Longrightarrow>
     paths = acc @ filter (passes flt)
               (map (\<lambda>fi. path_of w a p (fst fi)) (filter (\<lambda>fi. isRegular (fmode (snd fi))) rest))"
proof (induction a flt p rest acc w rule: readdir_loop.induct)
  case (1 a flt p rest acc w)
  note unfold = readdir_loop.simps [of a flt p rest acc w]
  show ?case
  proof (cases "plan w (steps w)")
    case (Some f)
    with "1.prems" show ?thesis
      by (simp add: unfold File_Readdir_def syscall_def split: prod.splits if_splits)
  next
    case None
    show ?thesis
    proof (cases "rest = []")
      case True
      from None "1.prems" show ?thesis
        unfolding unfold by (simp add: File_Readdir_def syscall_def True)
    next
      case False
      let ?w' = "w\<lparr>steps := Suc (steps w)\<rparr>"
      let ?F = "\<lambda>xs. filter (passes flt)
               (map (\<lambda>fi. path_of w a p (fst fi)) (filter (\<lambda>fi. isRegular (fmode (snd fi))) xs))"
      have R: "File_Readdir rbs rest w = ((take rbs rest, None), drop rbs rest, ?w')"
        using None False by (simp add: File_Readdir_def syscall_def)
      have step: "readdir_loop a flt p rest acc w
            = readdir_loop a flt p (drop rbs rest) (scan_chunk ?w' a flt p (take rbs rest) acc) ?w'"
        by (simp add: unfold R)
      have "paths = scan_chunk ?w' a flt p (take rbs rest) acc @ ?F (drop rbs rest)"
        using "1.IH" [OF R [symmetric] refl refl refl] "1.prems" step by simp
      also have "\<dots> = acc @ ?F (take rbs rest) @ ?F (drop rbs rest)"
        by (simp add: scan_chunk_eq)
      also have "?F (take rbs rest) @ ?F (drop rbs rest) = ?F (take rbs rest @ drop rbs rest)"
        by (simp only: filter_append map_append)
      finally show ?thesis by simp
    qed
  qed
qed

lemma readdir_loop_world:
  "readdir_loop a flt p rest acc w = (r, w') \<Longrightarrow> w' = w\<lparr>steps := steps w'\<rparr>"
proof (induction a flt p rest acc w rule: readdir_loop.induct)
  case (1 a flt p rest acc w)
  note unfold = readdir_loop.simps [of a flt p rest acc w]
  show ?case
  proof (cases "File_Readdir rbs rest w")
    case (fields res rest' w1)
    have w1: "w1 = w\<lparr>steps := Suc (steps w)\<rparr>"
      using fields by (auto simp: File_Readdir_def syscall_def split: option.splits if_splits)
    obtain fis e where res: "res = (fis, e)" by (cases res)
    show ?thesis
    proof (cases e)
      case None
      with "1.IH" [of res "(rest', w1)" fis e rest' w1] fields res "1.prems"
      have "w' = w1\<lparr>steps := steps w'\<rparr>"
        by (auto simp: unfold)
      then show ?thesis using w1 by simp
    next
      case (Some err)
      with fields res "1.prems" w1 show ?thesis
        by (auto simp: unfold split: if_splits)
    qed
  qed
qed

lemma getDirFilePaths_ok:
  assumes "getDirFilePaths dirPath flt p w = (Inr paths, w')"
  shows "\<exists>absDirPath. (if is_abs w dirPath then absDirPath = dirPath
                        else abs_path w dirPath = Inr absDirPath)
           \<and> paths = filter (passes flt)
               (map (\<lambda>fi. path_of w absDirPath p (fst fi))
                    (filter (\<lambda>fi. isRegular (fmode (snd fi))) (entries w)))"
  using assms
  by (auto simp: getDirFilePaths_def os_Open_dir_def syscall_def
        split: option.splits prod.splits sum.splits if_splits dest!: readdir_loop_ok)

lemma getDirFilePaths_world:
  "getDirFilePaths dirPath flt p w = (r, w') \<Longrightarrow> w' = w\<lparr>steps := steps w'\<rparr>"
  by (auto simp: getDirFilePaths_def os_Open_dir_def syscall_def
        split: option.splits prod.splits sum.splits if_splits dest!: readdir_loop_world)

lemma isRegular_bits:
  "isRegular m \<Longrightarrow>
     m AND ModeDir = 0 \<and> m AND ModeSymlink = 0 \<and> m AND ModeDevice = 0
     \<and> m AND ModeNamedPipe = 0 \<and> m AND ModeSocket = 0"
  by (simp add: isRegular_def ModeType_def bit.conj_disj_distrib or_eq_0_iff)

text \<open>
  C9. Every string \<open>getDirFilePaths\<close> returns is the name (or the joined path) of an
  entry of the directory whose mode has no type bit set: it is not a directory, a
  symbolic link, a device, a named pipe or a socket. This holds for every directory,
  every filter and both values of \<open>pathIsName\<close>.
\<close>

theorem getDirFilePaths_only_regular:
  assumes "getDirFilePaths dirPath fpFilter pathIsName w = (Inr paths, w')"
      and "fp \<in> set paths"
  shows "\<exists>name f absDirPath.
           (name, f) \<in> set (entries w)
           \<and> fp = (if pathIsName then name else join_path w absDirPath name)
           \<and> isRegular (fmode f)
           \<and> fmode f AND ModeDir = 0 \<and> fmode f AND ModeSymlink = 0
           \<and> fmode f AND ModeDevice = 0 \<and> fmode f AND ModeNamedPipe = 0
           \<and> fmode f AND ModeSocket = 0"
proof -
  from getDirFilePaths_ok [OF assms(1)] assms(2)
  obtain a fi where "fi \<in> set (entries w)" "isRegular (fmode (snd fi))"
      "fp = path_of w a pathIsName (fst fi)"
    by auto
  then show ?thesis
    using isRegular_bits [of "fmode (snd fi)"]
    by (intro exI [of _ "fst fi"] exI [of _ "snd fi"] exI [of _ a]) (simp add: path_of_def)
qed


theorem getDirFilePaths_only_regular_witness:
  "fst (getDirFilePaths ''.'' None True mixed_world) = Inr [''a.log.1'']
   \<and> ''a.log.1'' \<in> set [''a.log.1'']
   \<and> (\<exists>name f absDirPath.
         (name, f) \<in> set (entries mixed_world)
         \<and> ''a.log.1'' = (if True then name else join_path mixed_world absDirPath name)
         \<and> isRegular (fmode f)
         \<and> fmode f AND ModeDir = 0 \<and> fmode f AND ModeSymlink = 0
         \<and> fmode f AND ModeDevice = 0 \<and> fmode f AND ModeNamedPipe = 0
         \<and> fmode f AND ModeSocket = 0)"
proof -
  have e: "fst (getDirFilePaths ''.'' None True mixed_world) = Inr [''a.log.1'']"
    by code_simp
  then have e': "getDirFilePaths ''.'' None True mixed_world
                   = (Inr [''a.log.1''], snd (getDirFilePaths ''.'' None True mixed_world))"
    by (simp add: prod_eq_iff)
  have m: "''a.log.1'' \<in> set [''a.log.1'']"
    by simp
  show ?thesis
    using getDirFilePaths_only_regular [OF e' m] e by simp
qed

subsection \<open>The sorted history\<close>

lemma insert_less_key:
  fixes f :: "'a \<Rightarrow> int"
  shows "insert_less (\<lambda>a b. f a < f b) x ys = insort_key f x ys"
  by (induction ys) auto

lemma sort_Sort_key:
  fixes f :: "'a \<Rightarrow> int"
  shows "sort_Sort (\<lambda>a b. f a < f b) xs = sort_key f xs"
  by (induction xs) (simp_all add: sort_Sort_def insert_less_key)

lemma sortFileTailsAsc_eq:
  "sortFileTailsAsc rw w ts = (sort_key (tail_key rw w) ts, None)"
proof (cases "Self rw")
  case (RollingFileWriterSize m)
  have "rollSizeFileTailsSlice_Less = (\<lambda>a b. tail_key rw w a < tail_key rw w b)"
    using RollingFileWriterSize by (simp add: rollSizeFileTailsSlice_Less_def tail_key_def fun_eq_iff)
  then show ?thesis
    using RollingFileWriterSize sort_Sort_key [of "tail_key rw w" ts]
    by (simp add: sortFileTailsAsc_def)
next
  case (RollingFileWriterTime pat i c)
  have "rollTimeFileTailsSlice_Less w pat = (\<lambda>a b. tail_key rw w a < tail_key rw w b)"
    using RollingFileWriterTime by (simp add: rollTimeFileTailsSlice_Less_def tail_key_def fun_eq_iff)
  then show ?thesis
    using RollingFileWriterTime sort_Sort_key [of "tail_key rw w" ts]
    by (simp add: sortFileTailsAsc_def)
qed

lemma prefix_length_le: "prefix p f \<Longrightarrow> length p \<le> length f"
  by (auto simp: prefix_def)

lemma validFileTails_eq:
  "validFileTails rw w files
     = Inr (map (drop (length (history_prefix rw))) (filter (is_history_name rw w) files))"
  by (induction files)
     (auto simp: is_history_name_def history_prefix_def getFileTail_def
        rollingLogHistoryDelimiter_def dest: prefix_length_le)

lemma sortedLogHistory_of_eq:
  "sortedLogHistory_of rw w files
     = Inr (map (\<lambda>v. history_prefix rw @ v)
              (sort_key (tail_key rw w)
                 (map (drop (length (history_prefix rw))) (filter (is_history_name rw w) files))))"
  by (simp add: sortedLogHistory_of_def validFileTails_eq sortFileTailsAsc_eq history_prefix_def
        rollingLogHistoryDelimiter_def)

lemma reattach_tail: "prefix p f \<Longrightarrow> p @ drop (length p) f = f"
  by (auto simp: prefix_def)

lemma sortedLogHistory_of_Inr:
  "sortedLogHistory_of rw w files = Inr history \<Longrightarrow>
     history = map (\<lambda>v. history_prefix rw @ v)
              (sort_key (tail_key rw w)
                 (map (drop (length (history_prefix rw))) (filter (is_history_name rw w) files)))"
  by (simp add: sortedLogHistory_of_eq)

lemma reattach_tails:
  "map (\<lambda>v. history_prefix rw @ v)
     (map (drop (length (history_prefix rw))) (filter (is_history_name rw w) files))
   = filter (is_history_name rw w) files"
proof -
  have "map (\<lambda>f. history_prefix rw @ drop (length (history_prefix rw)) f)
            (filter (is_history_name rw w) files) = filter (is_history_name rw w) files"
    by (rule map_idI) (simp add: is_history_name_def reattach_tail)
  then show ?thesis
    by (simp add: comp_def)
qed

lemma mset_sortedLogHistory_of:
  assumes "sortedLogHistory_of rw w files = Inr history"
  shows "mset history = mset (filter (is_history_name rw w) files)"
proof -
  have "mset history
      = mset (map (\<lambda>v. history_prefix rw @ v)
               (map (drop (length (history_prefix rw))) (filter (is_history_name rw w) files)))"
    unfolding sortedLogHistory_of_Inr [OF assms] by (simp only: mset_map mset_sort)
  then show ?thesis
    by (simp only: reattach_tails)
qed

lemma set_sortedLogHistory_of:
  assumes "sortedLogHistory_of rw w files = Inr history"
  shows "set history = {f \<in> set files. is_history_name rw w f}"
  using mset_sortedLogHistory_of [OF assms, THEN arg_cong, of set_mset] by auto

lemma sorted_sortedLogHistory_of:
  assumes "sortedLogHistory_of rw w files = Inr history"
  shows "sorted (map (\<lambda>f. tail_key rw w (drop (length (history_prefix rw)) f)) history)"
proof -
  have "map (\<lambda>f. tail_key rw w (drop (length (history_prefix rw)) f)) history
          = map (tail_key rw w) (sort_key (tail_key rw w)
                 (map (drop (length (history_prefix rw))) (filter (is_history_name rw w) files)))"
    unfolding sortedLogHistory_of_Inr [OF assms] by (simp add: comp_def)
  then show ?thesis
    by (simp only: sorted_sort_key)
qed

text \<open>
  C7. From the names the scan returned, \<open>getSortedLogHistory\<close> builds exactly the
  names \<open>f\<close> that differ from \<open>FileName\<close>, begin with \<open>OriginalFileName + "."\<close> and
  whose tail \<open>isFileTailValid\<close> accepts: it strips the prefix, sorts the tails with
  \<open>sortFileTailsAsc\<close> (ascending in the key of the roller) and puts the prefix back.
  No name is lost or repeated, and the current file is never in the result.
\<close>

theorem getSortedLogHistory_construction:
  "\<exists>history.
      sortedLogHistory_of rw w files = Inr history
      \<and> history = map (\<lambda>tail. OriginalFileName rw @ ''.'' @ tail)
                    (fst (sortFileTailsAsc rw w
                       (map (drop (length (OriginalFileName rw @ ''.'')))
                          (filter (is_history_name rw w) files))))
      \<and> set history = {f \<in> set files. f \<noteq> FileName rw \<and> prefix (OriginalFileName rw @ ''.'') f
                          \<and> isFileTailValid rw w (drop (length (OriginalFileName rw @ ''.'')) f)}
      \<and> mset history = mset (filter (is_history_name rw w) files)
      \<and> sorted (map (\<lambda>f. tail_key rw w (drop (length (OriginalFileName rw @ ''.'')) f)) history)
      \<and> FileName rw \<notin> set history"
proof -
  obtain history where h: "sortedLogHistory_of rw w files = Inr history"
    by (simp add: sortedLogHistory_of_eq)
  show ?thesis
    using h set_sortedLogHistory_of [OF h] mset_sortedLogHistory_of [OF h]
      sorted_sortedLogHistory_of [OF h]
    by (auto simp: sortedLogHistory_of_eq sortFileTailsAsc_eq history_prefix_def is_history_name_def)
qed


theorem getSortedLogHistory_construction_witness:
  "sortedLogHistory_of example_size_writer example_world
      [''a.log.10'', ''a.log'', ''a.log.2'', ''b.log.1'', ''a.log.x''] = Inr [''a.log.2'', ''a.log.10'']
   \<and> FileName example_size_writer \<notin> set [''a.log.2'', ''a.log.10'']"
proof -
  have e: "sortedLogHistory_of example_size_writer example_world
      [''a.log.10'', ''a.log'', ''a.log.2'', ''b.log.1'', ''a.log.x''] = Inr [''a.log.2'', ''a.log.10'']"
    by code_simp
  show ?thesis
    using getSortedLogHistory_construction [of example_size_writer example_world
            "[''a.log.10'', ''a.log'', ''a.log.2'', ''b.log.1'', ''a.log.x'']"] e
    by auto
qed

subsection \<open>Signed tails of the size roller\<close>

lemma sorted_key_sign_order:
  fixes key :: "'a \<Rightarrow> int"
  assumes "sorted (map key xs)" "i < length xs" "j < length xs" "key (xs ! i) < 0" "0 < key (xs ! j)"
  shows "i < j"
proof (rule ccontr)
  assume "\<not> i < j"
  then have "j \<le> i" by simp
  then have "map key xs ! j \<le> map key xs ! i"
    using assms(1,2) by (intro sorted_nth_mono) simp_all
  then show False using assms by simp
qed

lemma sorted_key_take:
  fixes key :: "'a \<Rightarrow> int"
  assumes "sorted (map key xs)" "n \<in> set xs" "p \<in> set (take k xs)" "key n < 0" "0 < key p"
  shows "n \<in> set (take k xs)"
proof -
  obtain i where i: "i < length xs" "xs ! i = n"
    using assms(2) by (auto simp: in_set_conv_nth)
  obtain j where j: "j < length xs" "j < k" "xs ! j = p"
    using assms(3) by (auto simp: in_set_conv_nth)
  have "i < j"
    using sorted_key_sign_order [OF assms(1) i(1) j(1)] i j assms(4,5) by simp
  then have "i < length (take k xs)" "take k xs ! i = n"
    using i j by simp_all
  then show ?thesis
    by (metis nth_mem)
qed

lemma Atoi_minus_one: "Atoi ''-1'' = (- 1, None)"
  by code_simp

lemma Atoi_plus_two: "Atoi ''+2'' = (2, None)"
  by code_simp

text \<open>
  C10. \<open>isFileTailValid\<close> of the size roller accepts exactly the non-empty strings
  \<open>strconv.Atoi\<close> parses, signed ones such as \<open>-1\<close> and \<open>+2\<close> included. Files with such
  tails are admitted into the history, \<open>sortFileTailsAsc\<close> orders tails by their signed
  value, so a negative tail stands before every positive one, and whenever a prefix of
  the sorted list (what \<open>deleteOldRolls\<close> removes) holds a positive tail it holds every
  negative one.
\<close>

theorem size_tails_signed:
  assumes "Self rw = RollingFileWriterSize m"
  shows "(isFileTailValid rw w tail \<longleftrightarrow> tail \<noteq> [] \<and> snd (Atoi tail) = None)
       \<and> Atoi ''-1'' = (- 1, None) \<and> Atoi ''+2'' = (2, None)
       \<and> isFileTailValid rw w ''-1'' \<and> isFileTailValid rw w ''+2''
       \<and> (\<forall>f \<in> set files.
             f \<noteq> FileName rw \<and> prefix (OriginalFileName rw @ ''.'') f
             \<and> isFileTailValid rw w (drop (length (OriginalFileName rw @ ''.'')) f) \<longrightarrow>
             (\<exists>history. sortedLogHistory_of rw w files = Inr history \<and> f \<in> set history))
       \<and> sorted (map (\<lambda>t. fst (Atoi t)) (fst (sortFileTailsAsc rw w tails)))
       \<and> mset (fst (sortFileTailsAsc rw w tails)) = mset tails
       \<and> (\<forall>i j. i < length tails \<and> j < length tails
             \<and> fst (Atoi (fst (sortFileTailsAsc rw w tails) ! i)) < 0
             \<and> 0 < fst (Atoi (fst (sortFileTailsAsc rw w tails) ! j)) \<longrightarrow> i < j)
       \<and> (\<forall>neg pos k. neg \<in> set (fst (sortFileTailsAsc rw w tails))
             \<and> pos \<in> set (take k (fst (sortFileTailsAsc rw w tails)))
             \<and> fst (Atoi neg) < 0 \<and> 0 < fst (Atoi pos) \<longrightarrow>
             neg \<in> set (take k (fst (sortFileTailsAsc rw w tails))))"
proof -
  have key: "tail_key rw w = (\<lambda>t. fst (Atoi t))"
    using assms by (simp add: tail_key_def fun_eq_iff)
  have valid: "\<And>t. isFileTailValid rw w t \<longleftrightarrow> t \<noteq> [] \<and> snd (Atoi t) = None"
    using assms by (simp add: isFileTailValid_def)
  have srt: "sorted (map (\<lambda>t. fst (Atoi t)) (fst (sortFileTailsAsc rw w tails)))"
    using sorted_sort_key [of "tail_key rw w" tails] by (simp add: sortFileTailsAsc_eq key)
  have hist: "\<forall>f \<in> set files.
             f \<noteq> FileName rw \<and> prefix (OriginalFileName rw @ ''.'') f
             \<and> isFileTailValid rw w (drop (length (OriginalFileName rw @ ''.'')) f) \<longrightarrow>
             (\<exists>history. sortedLogHistory_of rw w files = Inr history \<and> f \<in> set history)"
  proof (intro ballI impI)
    fix f assume f: "f \<in> set files" "f \<noteq> FileName rw \<and> prefix (OriginalFileName rw @ ''.'') f
             \<and> isFileTailValid rw w (drop (length (OriginalFileName rw @ ''.'')) f)"
    obtain history where h: "sortedLogHistory_of rw w files = Inr history"
      by (simp add: sortedLogHistory_of_eq)
    with f set_sortedLogHistory_of [OF h]
    show "\<exists>history. sortedLogHistory_of rw w files = Inr history \<and> f \<in> set history"
      by (simp add: is_history_name_def history_prefix_def)
  qed
  have order: "\<forall>i j. i < length tails \<and> j < length tails
             \<and> fst (Atoi (fst (sortFileTailsAsc rw w tails) ! i)) < 0
             \<and> 0 < fst (Atoi (fst (sortFileTailsAsc rw w tails) ! j)) \<longrightarrow> i < j"
    using sorted_key_sign_order [OF srt] by (simp add: sortFileTailsAsc_eq)
  have prune: "\<forall>neg pos k. neg \<in> set (fst (sortFileTailsAsc rw w tails))
             \<and> pos \<in> set (take k (fst (sortFileTailsAsc rw w tails)))
             \<and> fst (Atoi neg) < 0 \<and> 0 < fst (Atoi pos) \<longrightarrow>
             neg \<in> set (take k (fst (sortFileTailsAsc rw w tails)))"
    using sorted_key_take [OF srt] by blast
  have ms: "mset (fst (sortFileTailsAsc rw w tails)) = mset tails"
    by (simp add: sortFileTailsAsc_eq)
  show ?thesis
    using valid [of tail] valid [of "''-1''"] valid [of "''+2''"] Atoi_minus_one Atoi_plus_two
      hist srt ms order prune
    by simp
qed

theorem size_tails_signed_witness:
  "Self example_size_writer = RollingFileWriterSize 10
   \<and> isFileTailValid example_size_writer signed_tails_world ''-1''
   \<and> fst (sortFileTailsAsc example_size_writer signed_tails_world [''1'', ''-1'', ''2''])
       = [''-1'', ''1'', ''2'']
   \<and> fst (getSortedLogHistory example_size_writer signed_tails_world)
       = Inr [''a.log.-1'', ''a.log.1'', ''a.log.2'']
   \<and> fst (Write example_size_writer ''Y'' signed_tails_world) = (1, None)
   \<and> map fst (entries (snd (snd (Write example_size_writer ''Y'' signed_tails_world))))
       = [''a.log.1'', ''a.log.2'', ''a.log.3'', ''a.log'']"
proof -
  have s: "Self example_size_writer = RollingFileWriterSize 10"
    by simp
  have e1: "fst (sortFileTailsAsc example_size_writer signed_tails_world [''1'', ''-1'', ''2''])
       = [''-1'', ''1'', ''2'']"
    by code_simp
  have e2: "fst (getSortedLogHistory example_size_writer signed_tails_world)
       = Inr [''a.log.-1'', ''a.log.1'', ''a.log.2'']"
    by code_simp
  have e3: "fst (Write example_size_writer ''Y'' signed_tails_world) = (1, None)"
    by code_simp
  have e4: "map fst (entries (snd (snd (Write example_size_writer ''Y'' signed_tails_world))))
       = [''a.log.1'', ''a.log.2'', ''a.log.3'', ''a.log'']"
    by code_simp
  show ?thesis
    using size_tails_signed [OF s, of signed_tails_world "''-1''" "[]" "[''1'', ''-1'', ''2'']"]
      e1 e2 e3 e4
    by simp
qed

subsection \<open>Printing and parsing integers\<close>

lemma is_digit_char_of: "(d::nat) < 10 \<Longrightarrow> is_digit (char_of (48 + d))"
  by (simp add: is_digit_def)

lemma digit_val_char_of: "(d::nat) < 10 \<Longrightarrow> digit_val (char_of (48 + d)) = d"
  by (simp add: digit_val_def)

lemma nat_digits_nonempty: "nat_digits n \<noteq> []"
  by (subst nat_digits.simps) simp

lemma nat_digits_all_digits: "list_all is_digit (nat_digits n)"
proof (induction n rule: nat_digits.induct)
  case (1 n)
  show ?case
  proof (cases "n < 10")
    case True
    then show ?thesis
      by (subst nat_digits.simps) (simp add: is_digit_char_of)
  next
    case False
    then have "list_all is_digit (nat_digits (n div 10))"
      using 1 by simp
    moreover have "is_digit (char_of (48 + n mod 10))"
      by (rule is_digit_char_of) simp
    ultimately show ?thesis
      using False by (subst nat_digits.simps) simp
  qed
qed

lemma digits_val_snoc: "digits_val (s @ [c]) = 10 * digits_val s + digit_val c"
  by (simp add: digits_val_def)

lemma digits_val_nat_digits: "digits_val (nat_digits n) = n"
proof (induction n rule: nat_digits.induct)
  case (1 n)
  show ?case
  proof (cases "n < 10")
    case True
    then show ?thesis
      by (subst nat_digits.simps) (simp add: digits_val_def digit_val_char_of)
  next
    case False
    then have "digits_val (nat_digits (n div 10)) = n div 10"
      using 1 by simp
    moreover have "digit_val (char_of (48 + n mod 10)) = n mod 10"
      by (rule digit_val_char_of) simp
    ultimately show ?thesis
      using False by (subst nat_digits.simps) (simp add: digits_val_snoc)
  qed
qed

lemma is_digit_not_sign: "is_digit c \<Longrightarrow> c \<noteq> CHR ''-'' \<and> c \<noteq> CHR ''+''"
  by (auto simp: is_digit_def)

lemma hd_nat_digits_not_sign:
  "hd (nat_digits n) \<noteq> CHR ''-'' \<and> hd (nat_digits n) \<noteq> CHR ''+''"
proof -
  have "is_digit (hd (nat_digits n))"
    using nat_digits_all_digits [of n] nat_digits_nonempty [of n]
    by (cases "nat_digits n") simp_all
  then show ?thesis
    by (rule is_digit_not_sign)
qed

lemma Atoi_Sprintf_d:
  assumes "MinInt \<le> k" "k \<le> MaxInt"
  shows "Atoi (Sprintf_d k) = (k, None)"
proof (cases "k < 0")
  case True
  then show ?thesis
    using assms nat_digits_nonempty [of "nat (- k)"] nat_digits_all_digits [of "nat (- k)"]
    by (simp add: Atoi_def Sprintf_d_def digits_val_nat_digits MinInt_def MaxInt_def)
next
  case False
  then show ?thesis
    using assms nat_digits_nonempty [of "nat k"] nat_digits_all_digits [of "nat k"]
      hd_nat_digits_not_sign [of "nat k"]
    by (simp add: Atoi_def Sprintf_d_def digits_val_nat_digits MinInt_def MaxInt_def)
qed

lemma Sprintf_d_nonempty: "Sprintf_d k \<noteq> []"
  by (simp add: Sprintf_d_def nat_digits_nonempty)

subsection \<open>Pruning the history\<close>

lemma in_names_iff: "name \<in> fst ` set es \<longleftrightarrow> (\<exists>f. map_of es name = Some f)"
  by (metis map_of_eq_None_iff not_None_eq)

lemma filter_absent_name:
  "name \<notin> fst ` set es \<Longrightarrow> filter (\<lambda>(n, f). n \<noteq> name) es = es"
  by (induction es) auto

lemma os_Remove_result:
  "os_Remove name w = (r, w') \<Longrightarrow>
     plan w' = plan w \<and> steps w' = Suc (steps w)
     \<and> (case plan w (steps w) of
           Some (e, k) \<Rightarrow> r = Some (ErrIO e) \<and> entries w' = entries w
         | None \<Rightarrow>
             if name \<in> fst ` set (entries w)
             then r = None \<and> entries w' = filter (\<lambda>(n, f). n \<noteq> name) (entries w)
             else r = Some ErrNotExist \<and> entries w' = entries w)"
  by (auto simp: os_Remove_def syscall_def in_names_iff split: option.splits prod.splits)

lemma tryRemoveFile_result:
  "tryRemoveFile name w = (r, w') \<Longrightarrow>
     plan w' = plan w \<and> steps w' = Suc (steps w)
     \<and> (case plan w (steps w) of
           Some (e, k) \<Rightarrow> r = Some (ErrIO e) \<and> entries w' = entries w
         | None \<Rightarrow> r = None \<and> entries w' = filter (\<lambda>(n, f). n \<noteq> name) (entries w))"
proof -
  assume a: "tryRemoveFile name w = (r, w')"
  obtain r0 where r0: "os_Remove name w = (r0, w')"
    using a by (auto simp: tryRemoveFile_def split: prod.splits if_splits)
  have r: "r = (if r0 = Some ErrNotExist then None else r0)"
    using a r0 by (auto simp: tryRemoveFile_def os_IsNotExist_def split: if_splits)
  show ?thesis
    using os_Remove_result [OF r0] r
    by (auto simp: filter_absent_name split: option.splits if_splits)
qed

lemma filter_names_Cons:
  "filter (\<lambda>(n, f). n \<notin> set rolls) (filter (\<lambda>(n, f). n \<noteq> roll) es)
     = filter (\<lambda>(n, f). n \<notin> set (roll # rolls)) es"
  by (induction es) auto

lemma removeRolls_None:
  "removeRolls rolls w = (None, w') \<Longrightarrow>
     entries w' = filter (\<lambda>(n, f). n \<notin> set rolls) (entries w)
     \<and> (\<forall>i < length rolls. plan w (steps w + i) = None)"
proof (induction rolls arbitrary: w)
  case Nil
  then show ?case by simp
next
  case (Cons roll rolls)
  obtain r w1 where t: "tryRemoveFile roll w = (r, w1)"
    by (cases "tryRemoveFile roll w")
  with Cons.prems have r: "r = None" and rest: "removeRolls rolls w1 = (None, w')"
    by (auto split: option.splits)
  note T = tryRemoveFile_result [OF t]
  have p0: "plan w (steps w) = None"
    using T r by (auto split: option.splits)
  have e1: "entries w1 = filter (\<lambda>(n, f). n \<noteq> roll) (entries w)"
    using T p0 by simp
  have IH: "entries w' = filter (\<lambda>(n, f). n \<notin> set rolls) (entries w1)"
           "\<forall>i < length rolls. plan w1 (steps w1 + i) = None"
    using Cons.IH [OF rest] by simp_all
  have "\<forall>i < length (roll # rolls). plan w (steps w + i) = None"
  proof (intro allI impI)
    fix i assume "i < length (roll # rolls)"
    then show "plan w (steps w + i) = None"
      using p0 IH(2) T by (cases i) auto
  qed
  then show ?case
    using IH(1) e1 by (simp only: filter_names_Cons)
qed

lemma removeRolls_no_fault:
  "\<forall>i < length rolls. plan w (steps w + i) = None \<Longrightarrow> fst (removeRolls rolls w) = None"
proof (induction rolls arbitrary: w)
  case Nil
  then show ?case by simp
next
  case (Cons roll rolls)
  obtain r w1 where t: "tryRemoveFile roll w = (r, w1)"
    by (cases "tryRemoveFile roll w")
  note T = tryRemoveFile_result [OF t]
  have p0: "plan w (steps w) = None"
    using Cons.prems by auto
  then have r: "r = None"
    using T by simp
  have "\<forall>i < length rolls. plan w1 (steps w1 + i) = None"
  proof (intro allI impI)
    fix i assume "i < length rolls"
    then have "plan w (steps w + Suc i) = None"
      using Cons.prems by auto
    then show "plan w1 (steps w1 + i) = None"
      using T by simp
  qed
  then show ?case
    using Cons.IH [of w1] t r by simp
qed

lemma removeRolls_Some:
  "removeRolls rolls w = (Some err, w') \<Longrightarrow>
     err \<noteq> ErrNotExist
     \<and> (\<exists>roll \<in> set rolls. \<exists>w1. os_Remove roll w1 = (Some err, w'))"
proof (induction rolls arbitrary: w)
  case Nil
  then show ?case by simp
next
  case (Cons roll rolls)
  obtain r w1 where t: "tryRemoveFile roll w = (r, w1)"
    by (cases "tryRemoveFile roll w")
  show ?case
  proof (cases r)
    case None
    with Cons.prems t have "removeRolls rolls w1 = (Some err, w')"
      by simp
    from Cons.IH [OF this] show ?thesis by auto
  next
    case (Some e)
    with Cons.prems t have e: "e = err" "w1 = w'"
      by simp_all
    have "os_Remove roll w = (Some err, w')" "err \<noteq> ErrNotExist"
      using t Some e
      by (auto simp: tryRemoveFile_def os_IsNotExist_def split: prod.splits if_splits)
    then show ?thesis by auto
  qed
qed

lemma deleteOldRolls_eq:
  "0 < MaxRolls rw \<Longrightarrow> MaxRolls rw < int (length history) \<Longrightarrow>
     Write_prune rw history w
       = removeRolls (take (length history - nat (MaxRolls rw)) history) w"
proof -
  assume a: "0 < MaxRolls rw" "MaxRolls rw < int (length history)"
  then have "nat (int (length history) - MaxRolls rw) = length history - nat (MaxRolls rw)"
    by linarith
  then show ?thesis
    using a by (simp add: Write_prune_def deleteOldRolls_def Let_def)
qed

lemma Write_prune_disabled: "MaxRolls rw \<le> 0 \<Longrightarrow> Write_prune rw history w = (None, w)"
  by (simp add: Write_prune_def deleteOldRolls_def)

lemma tryRemoveFile_eq:
  "tryRemoveFile name w
     = (if fst (os_Remove name w) = Some ErrNotExist then None else fst (os_Remove name w),
        snd (os_Remove name w))"
  by (simp add: tryRemoveFile_def os_IsNotExist_def split: prod.splits)

lemma Write_error_of_roll:
  assumes "CurrentFile rw \<noteq> None"
      and "needsToRoll rw ws = ((True, None), w0)"
      and "Write_roll rw w0 = (Some err, rw', w')"
  shows "Write rw bytes ws = ((0, Some err), rw', w')"
  using assms by (auto simp: Write_def)

lemma Write_roll_error_of_prune:
  assumes "File_Close (CurrentFile rw) w0 = (None, w1)"
      and "getSortedLogHistory rw w1 = (Inr h, w2)"
      and "Write_rename rw h w2 = (Inr history, w)"
      and "Write_prune rw history w = (Some err, w4)"
  shows "Write_roll rw w0 = (Some err, rw, w4)"
  using assms by (simp add: Write_roll_def)

text \<open>
  C2. The pruning step of the rotation, on the history after the rename. With
  \<open>MaxRolls \<le> 0\<close> it deletes nothing and changes nothing, whatever the length of the
  history. With \<open>0 < MaxRolls < L\<close> it succeeds exactly when no removal meets a failure
  of the system, and then exactly the entries named by the first \<open>L - MaxRolls\<close> names of
  the history are gone and every other entry is kept. A removal that reports "file does
  not exist" counts as success in \<open>tryRemoveFile\<close>; any other error of a removal is
  what the pruning returns, and \<open>Write\<close> returns it with a count of 0.
\<close>

theorem Write_prune_deletes_oldest:
  "(MaxRolls rw \<le> 0 \<longrightarrow> Write_prune rw history w = (None, w))
   \<and> (0 < MaxRolls rw \<and> MaxRolls rw < int (length history) \<longrightarrow>
        ((\<forall>i < length history - nat (MaxRolls rw). plan w (steps w + i) = None)
           \<longleftrightarrow> fst (Write_prune rw history w) = None)
        \<and> (\<forall>w'. Write_prune rw history w = (None, w') \<longrightarrow>
              entries w'
                = filter (\<lambda>(n, f). n \<notin> set (take (length history - nat (MaxRolls rw)) history))
                    (entries w)))
   \<and> (\<forall>name. tryRemoveFile name w
                 = (if fst (os_Remove name w) = Some ErrNotExist then None
                    else fst (os_Remove name w), snd (os_Remove name w)))
   \<and> (\<forall>err w'. Write_prune rw history w = (Some err, w') \<longrightarrow>
         err \<noteq> ErrNotExist
         \<and> (\<exists>roll \<in> set history. \<exists>w1. os_Remove roll w1 = (Some err, w')))
   \<and> (\<forall>err ws w0 w1 h w2 w' bytes.
         CurrentFile rw \<noteq> None \<and> needsToRoll rw ws = ((True, None), w0)
         \<and> File_Close (CurrentFile rw) w0 = (None, w1)
         \<and> getSortedLogHistory rw w1 = (Inr h, w2)
         \<and> Write_rename rw h w2 = (Inr history, w)
         \<and> Write_prune rw history w = (Some err, w') \<longrightarrow>
         Write rw bytes ws = ((0, Some err), rw, w'))"
proof (intro conjI impI allI)
  assume "MaxRolls rw \<le> 0"
  then show "Write_prune rw history w = (None, w)"
    by (rule Write_prune_disabled)
next
  assume a: "0 < MaxRolls rw \<and> MaxRolls rw < int (length history)"
  let ?rolls = "take (length history - nat (MaxRolls rw)) history"
  have eq: "Write_prune rw history w = removeRolls ?rolls w"
    using a by (simp add: deleteOldRolls_eq)
  have len: "length ?rolls = length history - nat (MaxRolls rw)"
    by simp
  show "(\<forall>i < length history - nat (MaxRolls rw). plan w (steps w + i) = None)
           \<longleftrightarrow> fst (Write_prune rw history w) = None"
  proof
    assume "\<forall>i < length history - nat (MaxRolls rw). plan w (steps w + i) = None"
    then show "fst (Write_prune rw history w) = None"
      using removeRolls_no_fault [of ?rolls w] by (simp add: eq)
  next
    assume "fst (Write_prune rw history w) = None"
    then have "removeRolls ?rolls w = (None, snd (removeRolls ?rolls w))"
      by (simp add: eq prod_eq_iff)
    from removeRolls_None [OF this]
    show "\<forall>i < length history - nat (MaxRolls rw). plan w (steps w + i) = None"
      by simp
  qed
next
  fix w'
  assume a: "0 < MaxRolls rw \<and> MaxRolls rw < int (length history)"
     and p: "Write_prune rw history w = (None, w')"
  then have "removeRolls (take (length history - nat (MaxRolls rw)) history) w = (None, w')"
    by (simp add: deleteOldRolls_eq)
  from removeRolls_None [OF this]
  show "entries w' = filter (\<lambda>(n, f). n \<notin> set (take (length history - nat (MaxRolls rw)) history))
                    (entries w)"
    by simp
next
  fix name
  show "tryRemoveFile name w
                 = (if fst (os_Remove name w) = Some ErrNotExist then None
                    else fst (os_Remove name w), snd (os_Remove name w))"
    by (rule tryRemoveFile_eq)
next
  fix err w'
  assume p: "Write_prune rw history w = (Some err, w')"
  then have "0 < MaxRolls rw" "MaxRolls rw < int (length history)"
    by (auto simp: Write_prune_def deleteOldRolls_def Let_def split: if_splits)
  with p have r: "removeRolls (take (length history - nat (MaxRolls rw)) history) w = (Some err, w')"
    by (simp add: deleteOldRolls_eq)
  from removeRolls_Some [OF r] show "err \<noteq> ErrNotExist"
    by simp
  from removeRolls_Some [OF r] show "\<exists>roll \<in> set history. \<exists>w1. os_Remove roll w1 = (Some err, w')"
    by (meson in_set_takeD)
next
  fix err ws w0 w1 h w2 w' bytes
  assume a: "CurrentFile rw \<noteq> None \<and> needsToRoll rw ws = ((True, None), w0)
         \<and> File_Close (CurrentFile rw) w0 = (None, w1)
         \<and> getSortedLogHistory rw w1 = (Inr h, w2)
         \<and> Write_rename rw h w2 = (Inr history, w)
         \<and> Write_prune rw history w = (Some err, w')"
  then have "Write_roll rw w0 = (Some err, rw, w')"
    by (intro Write_roll_error_of_prune [of rw w0 w1 h w2 history w err w']) simp_all
  with a show "Write rw bytes ws = ((0, Some err), rw, w')"
    by (intro Write_error_of_roll) simp_all
qed


theorem Write_prune_deletes_oldest_witness:
  "0 < MaxRolls example_size_writer
   \<and> MaxRolls example_size_writer < int (length [''a.log.1'', ''a.log.2'', ''a.log.3'', ''a.log.4''])
   \<and> fst (Write_prune example_size_writer [''a.log.1'', ''a.log.2'', ''a.log.3'', ''a.log.4'']
             cascade_world) = None
   \<and> map fst (entries (snd (Write_prune example_size_writer
                                [''a.log.1'', ''a.log.2'', ''a.log.3'', ''a.log.4''] cascade_world)))
       = [''a.log.2'', ''a.log.3'', ''a.log'']
   \<and> Write_prune (example_size_writer\<lparr>MaxRolls := 0\<rparr>)
        [''a.log.1'', ''a.log.2'', ''a.log.3'', ''a.log.4''] cascade_world = (None, cascade_world)
   \<and> fst (Write (example_size_writer\<lparr>CurrentFile := Some 3, CurrentFileSize := 11\<rparr>) ''Y''
            failing_remove_world) = (0, Some (ErrIO 13))"
proof -
  let ?h = "[''a.log.1'', ''a.log.2'', ''a.log.3'', ''a.log.4'']"
  have m: "0 < MaxRolls example_size_writer \<and> MaxRolls example_size_writer < int (length ?h)"
    by simp
  have p: "\<forall>i < length ?h - nat (MaxRolls example_size_writer).
             plan cascade_world (steps cascade_world + i) = None"
    by (simp add: cascade_world_def)
  have f: "fst (Write_prune example_size_writer ?h cascade_world) = None"
    using Write_prune_deletes_oldest [of example_size_writer ?h cascade_world] m p by blast
  then have "Write_prune example_size_writer ?h cascade_world
               = (None, snd (Write_prune example_size_writer ?h cascade_world))"
    by (simp add: prod_eq_iff)
  then have "entries (snd (Write_prune example_size_writer ?h cascade_world))
               = filter (\<lambda>(n, f). n \<notin> set (take (length ?h - nat (MaxRolls example_size_writer)) ?h))
                   (entries cascade_world)"
    using Write_prune_deletes_oldest [of example_size_writer ?h cascade_world] m by blast
  then have g: "map fst (entries (snd (Write_prune example_size_writer ?h cascade_world)))
                  = [''a.log.2'', ''a.log.3'', ''a.log'']"
    by (simp add: cascade_world_def)
  have z: "Write_prune (example_size_writer\<lparr>MaxRolls := 0\<rparr>) ?h cascade_world = (None, cascade_world)"
    using Write_prune_deletes_oldest [of "example_size_writer\<lparr>MaxRolls := 0\<rparr>" ?h cascade_world]
    by simp
  let ?rw = "example_size_writer\<lparr>CurrentFile := Some 3, CurrentFileSize := 11\<rparr>"
  let ?ws = failing_remove_world
  let ?w0 = "snd (needsToRoll ?rw ?ws)"
  let ?w1 = "snd (File_Close (CurrentFile ?rw) ?w0)"
  let ?w2 = "snd (getSortedLogHistory ?rw ?w1)"
  let ?w3 = "snd (Write_rename ?rw [''a.log.1'', ''a.log.2'', ''a.log.3''] ?w2)"
  let ?w4 = "snd (Write_prune ?rw ?h ?w3)"
  have c: "CurrentFile ?rw \<noteq> None"
    by simp
  have "fst (needsToRoll ?rw ?ws) = (True, None)"
    by code_simp
  then have n: "needsToRoll ?rw ?ws = ((True, None), ?w0)"
    by (simp add: prod_eq_iff)
  have "fst (File_Close (CurrentFile ?rw) ?w0) = None"
    by code_simp
  then have cl: "File_Close (CurrentFile ?rw) ?w0 = (None, ?w1)"
    by (simp add: prod_eq_iff)
  have "fst (getSortedLogHistory ?rw ?w1) = Inr [''a.log.1'', ''a.log.2'', ''a.log.3'']"
    by code_simp
  then have hs: "getSortedLogHistory ?rw ?w1 = (Inr [''a.log.1'', ''a.log.2'', ''a.log.3''], ?w2)"
    by (simp add: prod_eq_iff)
  have "fst (Write_rename ?rw [''a.log.1'', ''a.log.2'', ''a.log.3''] ?w2) = Inr ?h"
    by code_simp
  then have rn: "Write_rename ?rw [''a.log.1'', ''a.log.2'', ''a.log.3''] ?w2 = (Inr ?h, ?w3)"
    by (simp add: prod_eq_iff)
  have "fst (Write_prune ?rw ?h ?w3) = Some (ErrIO 13)"
    by code_simp
  then have pr: "Write_prune ?rw ?h ?w3 = (Some (ErrIO 13), ?w4)"
    by (simp add: prod_eq_iff)
  have "Write ?rw ''Y'' ?ws = ((0, Some (ErrIO 13)), ?rw, ?w4)"
    using Write_prune_deletes_oldest [of ?rw ?h ?w3] c n cl hs rn pr by blast
  then have e: "fst (Write ?rw ''Y'' ?ws) = (0, Some (ErrIO 13))"
    by simp
  show ?thesis
    using m f g z e by simp
qed

end
